theory Spec2Isabelle
  imports Complex_Main "HOL-Library.Sublist"
begin

section \<open>Python values\<close>

text \<open>
  The dictionaries that travel through the monitor (workflow runs decoded from JSON, the
  failure analysis) are maps from keys to scalar Python values.  Text is a list of
  \<^typ>\<open>char\<close>; where the model looks into a character (the character classes of the
  matcher, \<^verbatim>\<open>str.strip\<close>) a \<^typ>\<open>char\<close> is a code point below 256.  Python floats
  are modelled as real numbers: every float that is not a NaN is a real number and is
  compared as one.  An exception is the value \<open>Exception msg\<close>, where \<open>msg\<close> is what
  \<^verbatim>\<open>str(e)\<close> prints; a computation that may raise returns \<open>exn + 'a\<close>.
\<close>

datatype exn = Exception string

datatype pyval = PNone | PBool bool | PInt int | PFloat real | PStr string

type_synonym pydict = "string \<rightharpoonup> pyval"

definition get :: "pydict \<Rightarrow> string \<Rightarrow> pyval" where
  "get d k = (case d k of None \<Rightarrow> PNone | Some v \<Rightarrow> v)"

definition get_default :: "pydict \<Rightarrow> string \<Rightarrow> pyval \<Rightarrow> pyval" where
  "get_default d k dflt = (case d k of None \<Rightarrow> dflt | Some v \<Rightarrow> v)"

fun truthy :: "pyval \<Rightarrow> bool" where
  "truthy PNone = False"
| "truthy (PBool b) = b"
| "truthy (PInt i) = (i \<noteq> 0)"
| "truthy (PFloat x) = (x \<noteq> 0)"
| "truthy (PStr s) = (s \<noteq> [])"

definition py_or :: "pyval \<Rightarrow> pyval \<Rightarrow> pyval" where
  "py_or a b = (if truthy a then a else b)"

subsection \<open>Characters and strings\<close>

definition code_point :: "char \<Rightarrow> nat" where
  "code_point c = of_char c"

definition is_upper :: "char \<Rightarrow> bool" where
  "is_upper c = (65 \<le> code_point c \<and> code_point c \<le> 90)"

definition is_lower :: "char \<Rightarrow> bool" where
  "is_lower c = (97 \<le> code_point c \<and> code_point c \<le> 122)"

definition is_digit :: "char \<Rightarrow> bool" where
  "is_digit c = (48 \<le> code_point c \<and> code_point c \<le> 57)"

definition is_space :: "char \<Rightarrow> bool" where
  "is_space c = ((9 \<le> code_point c \<and> code_point c \<le> 13)
     \<or> (28 \<le> code_point c \<and> code_point c \<le> 32)
     \<or> code_point c = 133 \<or> code_point c = 160)"

definition is_word :: "char \<Rightarrow> bool" where
  "is_word c = (is_digit c \<or> is_upper c \<or> c = CHR ''_'' \<or> is_lower c
     \<or> code_point c \<in> {170, 178, 179, 181, 185, 186, 188, 189, 190}
     \<or> (192 \<le> code_point c \<and> code_point c \<noteq> 215 \<and> code_point c \<noteq> 247))"

definition ci_eq :: "char \<Rightarrow> char \<Rightarrow> bool" where
  "ci_eq a b = (a = b \<or> (is_upper a \<and> code_point b = code_point a + 32)
     \<or> (is_upper b \<and> code_point a = code_point b + 32))"

definition strip :: "string \<Rightarrow> string" where
  "strip s = rev (dropWhile is_space (rev (dropWhile is_space s)))"

definition lstrip_newline :: "string \<Rightarrow> string" where
  "lstrip_newline s = dropWhile (\<lambda>c. c = CHR 0x0A) s"

section \<open>Regular expressions\<close>

text \<open>
  The patterns of the source are written as syntax trees.  Repetition only ever applies
  to a single character class in them, and no pattern has more than one capturing group.
  The flag \<^verbatim>\<open>re.IGNORECASE\<close> is part of a literal (\<open>CharI\<close> against \<open>CharS\<close>),
  \<^verbatim>\<open>re.DOTALL\<close> part of the dot (\<open>DotAll\<close> against \<open>Dot\<close>).  The character
  classes are those of Python 3 on code points below 256: \<^verbatim>\<open>\s\<close> is 9 to 13, 28 to
  32, 133 and 160; \<^verbatim>\<open>\w\<close> is the ASCII letters, digits and underscore and the
  alphanumeric code points from 170 on; \<^verbatim>\<open>\d\<close> is the ASCII digits; an ASCII letter
  matches itself in either case.
\<close>

datatype cls = CharI char | CharS char | Dot | DotAll | Word | NonSpace | Digit | OneOf "char list"

fun cls_ok :: "cls \<Rightarrow> char \<Rightarrow> bool" where
  "cls_ok (CharI a) c = ci_eq a c"
| "cls_ok (CharS a) c = (a = c)"
| "cls_ok Dot c = (c \<noteq> CHR 0x0A)"
| "cls_ok DotAll c = True"
| "cls_ok Word c = is_word c"
| "cls_ok NonSpace c = (\<not> is_space c)"
| "cls_ok Digit c = is_digit c"
| "cls_ok (OneOf cs) c = (c \<in> set cs)"

datatype rx = Eps | Atom cls | Cat rx rx | Alt rx rx | Rep cls nat bool | Group rx | Ahead rx | AtEnd

text \<open>
  A backtracking matcher as a list of successes: \<open>threads r s g\<close> lists, in the order
  in which a backtracking engine tries them, the ways \<open>r\<close> can match a prefix of \<open>s\<close>,
  each as the unread rest of the text and the text captured by the group.
  \<open>Rep k n greedy\<close> is \<open>k{n,}\<close>, tried longest first when greedy and shortest first
  otherwise.
\<close>

primrec threads :: "rx \<Rightarrow> string \<Rightarrow> string option \<Rightarrow> (string \<times> string option) list" where
  "threads Eps s g = [(s, g)]"
| "threads (Atom k) s g =
     (case s of [] \<Rightarrow> [] | c # t \<Rightarrow> if cls_ok k c then [(t, g)] else [])"
| "threads (Cat a b) s g = concat (map (\<lambda>th. threads b (fst th) (snd th)) (threads a s g))"
| "threads (Alt a b) s g = threads a s g @ threads b s g"
| "threads (Rep k n greedy) s g =
     (let m = length (takeWhile (cls_ok k) s);
          counts = (if greedy then rev [n..<Suc m] else [n..<Suc m])
      in map (\<lambda>i. (drop i s, g)) counts)"
| "threads (Group a) s g =
     map (\<lambda>th. (fst th, Some (take (length s - length (fst th)) s))) (threads a s g)"
| "threads (Ahead a) s g = (if threads a s g = [] then [] else [(s, g)])"
| "threads AtEnd s g = (if s = [] then [(s, g)] else [])"

record match =
  group0 :: string
  group1 :: "string option"

definition match_at :: "rx \<Rightarrow> string \<Rightarrow> match option" where
  "match_at r s =
     (case threads r s None of
        [] \<Rightarrow> None
      | th # _ \<Rightarrow> Some \<lparr>group0 = take (length s - length (fst th)) s, group1 = snd th\<rparr>)"

text \<open>\<^verbatim>\<open>re.search\<close>: the match at the leftmost position that has one.\<close>

fun re_search :: "rx \<Rightarrow> string \<Rightarrow> match option" where
  "re_search r [] = match_at r []"
| "re_search r (c # t) =
     (case match_at r (c # t) of Some m \<Rightarrow> Some m | None \<Rightarrow> re_search r t)"

definition lit :: "string \<Rightarrow> rx" where
  "lit s = foldr (\<lambda>c r. Cat (Atom (CharI c)) r) s Eps"

definition lits :: "string \<Rightarrow> rx" where
  "lits s = foldr (\<lambda>c r. Cat (Atom (CharS c)) r) s Eps"

definition seq :: "rx list \<Rightarrow> rx" where
  "seq rs = foldr Cat rs Eps"

text \<open>
  The pieces the patterns are made of: \<^verbatim>\<open>['\"]\<close> and the two quote characters,
  the groups \<^verbatim>\<open>(\w+)\<close>, \<^verbatim>\<open>(\S+)\<close> and \<^verbatim>\<open>(\d+)\<close>, and \<^verbatim>\<open>.*\<close> and
  \<^verbatim>\<open>.+\<close>.
\<close>

definition quote :: rx where
  "quote = Atom (OneOf [CHR 0x27, CHR 0x22])"

definition tick :: rx where
  "tick = Atom (CharS (CHR 0x27))"

definition backtick :: rx where
  "backtick = Atom (CharS (CHR 0x60))"

definition word1 :: rx where
  "word1 = Group (Rep Word 1 True)"

definition nonspace1 :: rx where
  "nonspace1 = Group (Rep NonSpace 1 True)"

definition digits1 :: rx where
  "digits1 = Group (Rep Digit 1 True)"

definition anything :: rx where
  "anything = Rep Dot 0 True"

definition something :: rx where
  "something = Rep Dot 1 True"

section \<open>failure\_patterns.py: FailurePatternAnalyzer\<close>

text \<open>
  \<^verbatim>\<open>self.patterns\<close>: a dictionary from pattern type to its list of regular expressions;
  a Python dictionary iterates in insertion order, so it is an association list.  The
  regular-expression library is a parameter \<open>search\<close> of everything that calls
  \<^verbatim>\<open>re.search\<close>: what is proved of the classifiers for every \<open>search\<close> holds
  whatever the library answers and however the text is encoded.  \<open>re_search\<close> above is
  the instance used to run the functions on concrete logs.
\<close>

text \<open>
  The regular expressions of the source, in the order of the table below:
  \<^verbatim>\<open>
  missing_dependency:  ModuleNotFoundError: No module named ['\"](\w+)['\"]
                       ImportError: cannot import name ['\"](\w+)['\"]
                       ERROR: Could not find a version that satisfies the requirement (\S+)
                       npm ERR! 404  '(\S+)' is not in the npm registry
                       Package ['\"](\w+)['\"] not found
  test_timeout:        FAILED.*test_(\w+).*Timeout
                       pytest\.timeout\.Timeout
                       Test exceeded (\d+)s timeout
                       TimeoutError
  test_failure:        AssertionError: (.+)
                       FAILED.*test_(\w+)
                       Error: Assertion `(.+)` failed
                       Expected .+ but got .+
  build_failure:       Build step.*failed with exit code (\d+)
                       ERROR: Build failed
                       make: \*\*\* \[.*\] Error (\d+)
                       Compilation error
  deployment_crash:    Deployment.*crashed
                       CrashLoopBackOff
                       Error: Application failed to start
                       Health check failed
  resource_limit:      OOMKilled
                       OutOfMemoryError
                       Resource limit exceeded
                       Disk space full
  network_timeout:     Connection refused
                       Connection timeout
                       dial tcp.*timeout
                       Network is unreachable
  syntax_error:        SyntaxError: (.+)
                       IndentationError
                       invalid syntax
                       unexpected token
  permission_error:    PermissionError
                       Permission denied
                       Access denied
                       Forbidden
  configuration_error: Configuration error
                       Invalid configuration
                       Missing required.*config
                       KeyError: ['\"](\w+)['\"]
  \<close>
\<close>

definition analyzer_patterns :: "(string \<times> rx list) list" where
  "analyzer_patterns =
   [(''missing_dependency'',
      [seq [lit ''ModuleNotFoundError: No module named '', quote, word1, quote],
       seq [lit ''ImportError: cannot import name '', quote, word1, quote],
       seq [lit ''ERROR: Could not find a version that satisfies the requirement '', nonspace1],
       seq [lit ''npm ERR! 404  '', tick, nonspace1, tick, lit '' is not in the npm registry''],
       seq [lit ''Package '', quote, word1, quote, lit '' not found'']]),
    (''test_timeout'',
      [seq [lit ''FAILED'', anything, lit ''test_'', word1, anything, lit ''Timeout''],
       lit ''pytest.timeout.Timeout'',
       seq [lit ''Test exceeded '', digits1, lit ''s timeout''],
       lit ''TimeoutError'']),
    (''test_failure'',
      [seq [lit ''AssertionError: '', Group something],
       seq [lit ''FAILED'', anything, lit ''test_'', word1],
       seq [lit ''Error: Assertion '', backtick, Group something, backtick, lit '' failed''],
       seq [lit ''Expected '', something, lit '' but got '', something]]),
    (''build_failure'',
      [seq [lit ''Build step'', anything, lit ''failed with exit code '', digits1],
       lit ''ERROR: Build failed'',
       seq [lit ''make: *** ['', anything, lit ''] Error '', digits1],
       lit ''Compilation error'']),
    (''deployment_crash'',
      [seq [lit ''Deployment'', anything, lit ''crashed''],
       lit ''CrashLoopBackOff'',
       lit ''Error: Application failed to start'',
       lit ''Health check failed'']),
    (''resource_limit'',
      [lit ''OOMKilled'',
       lit ''OutOfMemoryError'',
       lit ''Resource limit exceeded'',
       lit ''Disk space full'']),
    (''network_timeout'',
      [lit ''Connection refused'',
       lit ''Connection timeout'',
       seq [lit ''dial tcp'', anything, lit ''timeout''],
       lit ''Network is unreachable'']),
    (''syntax_error'',
      [seq [lit ''SyntaxError: '', Group something],
       lit ''IndentationError'',
       lit ''invalid syntax'',
       lit ''unexpected token'']),
    (''permission_error'',
      [lit ''PermissionError'',
       lit ''Permission denied'',
       lit ''Access denied'',
       lit ''Forbidden'']),
    (''configuration_error'',
      [lit ''Configuration error'',
       lit ''Invalid configuration'',
       seq [lit ''Missing required'', anything, lit ''config''],
       seq [lit ''KeyError: '', quote, word1, quote]])]"

definition healing_difficulty :: "string \<rightharpoonup> string" where
  "healing_difficulty = map_of
   [(''missing_dependency'', ''easy''),
    (''test_timeout'', ''easy''),
    (''test_failure'', ''medium''),
    (''build_failure'', ''medium''),
    (''deployment_crash'', ''medium''),
    (''resource_limit'', ''easy''),
    (''network_timeout'', ''easy''),
    (''syntax_error'', ''hard''),
    (''permission_error'', ''hard''),
    (''configuration_error'', ''medium'')]"

record pattern_details =
  pattern_type :: string
  matched_text :: "string option"
  captured_groups :: "string list"
  difficulty :: string

text \<open>The inner loop of \<^verbatim>\<open>identify_pattern\<close>: the first regex of one list that matches.\<close>

fun first_regex :: "(rx \<Rightarrow> string \<Rightarrow> match option) \<Rightarrow> rx list \<Rightarrow> string \<Rightarrow> match option" where
  "first_regex search [] error_log = None"
| "first_regex search (regex # regex_list) error_log =
     (case search regex error_log of
        Some m \<Rightarrow> Some m
      | None \<Rightarrow> first_regex search regex_list error_log)"

text \<open>The outer loop: the first pattern type, in dictionary order, one of whose regexes matches.\<close>

fun first_pattern ::
  "(rx \<Rightarrow> string \<Rightarrow> match option) \<Rightarrow> (string \<times> rx list) list \<Rightarrow> string \<Rightarrow> (string \<times> match) option" where
  "first_pattern search [] error_log = None"
| "first_pattern search ((ptype, regex_list) # items) error_log =
     (case first_regex search regex_list error_log of
        Some m \<Rightarrow> Some (ptype, m)
      | None \<Rightarrow> first_pattern search items error_log)"

definition identify_pattern :: "(rx \<Rightarrow> string \<Rightarrow> match option) \<Rightarrow> string \<Rightarrow> string \<times> pattern_details" where
  "identify_pattern search error_log =
     (case first_pattern search analyzer_patterns error_log of
        Some (ptype, m) \<Rightarrow>
          (ptype,
           \<lparr>pattern_type = ptype,
            matched_text = Some (group0 m),
            captured_groups = (case group1 m of None \<Rightarrow> [] | Some g \<Rightarrow> [g]),
            difficulty = (case healing_difficulty ptype of None \<Rightarrow> ''unknown'' | Some d \<Rightarrow> d)\<rparr>)
      | None \<Rightarrow>
          (''unknown'',
           \<lparr>pattern_type = ''unknown'', matched_text = None, captured_groups = [],
            difficulty = ''hard''\<rparr>))"

text \<open>The rule list that the two nested loops walk through, one rule per regex.\<close>

definition analyzer_rules :: "(rx \<times> string) list" where
  "analyzer_rules =
     concat (map (\<lambda>(ptype, regex_list). map (\<lambda>regex. (regex, ptype)) regex_list) analyzer_patterns)"

text \<open>
  \<^verbatim>\<open>is_flaky_test(test_history: List[bool])\<close>: an entry is \<open>True\<close> for a passing
  observation and \<open>False\<close> for a failing one.  The failure rate is the true quotient
  \<^verbatim>\<open>test_history.count(False) / len(test_history)\<close>, here an exact real number.  Python
  rounds the quotient of the two integers correctly to a double and compares it with the
  doubles nearest to 0.20 and 0.80; rounding is monotone and takes 1/5 and 4/5 to exactly
  those two doubles, so the comparison differs from the exact one only for a history of
  more than \<open>10^15\<close> observations.
\<close>

definition failure_rate :: "bool list \<Rightarrow> real" where
  "failure_rate test_history =
     real (count_list test_history False) / real (length test_history)"

definition is_flaky_test :: "bool list \<Rightarrow> bool" where
  "is_flaky_test test_history =
     (if length test_history < 5 then False
      else 0.20 \<le> failure_rate test_history \<and> failure_rate test_history \<le> 0.80)"

section \<open>healing\_engine.py: HealingEngine\<close>

text \<open>The keys of the registry \<^verbatim>\<open>self.strategies\<close>, in the order of the dictionary literal.\<close>

definition strategy_names :: "string list" where
  "strategy_names =
   [''missing_dependency'', ''test_timeout'', ''flaky_test'', ''build_failure'',
    ''deployment_crash'', ''resource_limit'', ''network_timeout'']"

text \<open>
  The list \<^verbatim>\<open>patterns\<close> of \<^verbatim>\<open>analyze_failure\<close>, searched with
  \<^verbatim>\<open>re.IGNORECASE\<close>:
  \<^verbatim>\<open>
  ModuleNotFoundError: No module named '(\w+)'                          missing_dependency
  ImportError: cannot import name '(\w+)'                               missing_dependency
  ERROR: Could not find a version that satisfies the requirement (\S+)  missing_dependency
  FAILED.*test_(\w+).*Timeout                                           test_timeout
  AssertionError                                                        test_failure
  Build step.*failed with exit code (\d+)                               build_failure
  Error: Command failed: npm install                                    npm_dependency_error
  Deployment.*crashed                                                   deployment_crash
  OOMKilled                                                             resource_limit
  Connection refused|Connection timeout                                 network_timeout
  \<close>
\<close>

definition patterns :: "(rx \<times> string) list" where
  "patterns =
   [(seq [lit ''ModuleNotFoundError: No module named '', tick, word1, tick], ''missing_dependency''),
    (seq [lit ''ImportError: cannot import name '', tick, word1, tick], ''missing_dependency''),
    (seq [lit ''ERROR: Could not find a version that satisfies the requirement '', nonspace1],
       ''missing_dependency''),
    (seq [lit ''FAILED'', anything, lit ''test_'', word1, anything, lit ''Timeout''], ''test_timeout''),
    (lit ''AssertionError'', ''test_failure''),
    (seq [lit ''Build step'', anything, lit ''failed with exit code '', digits1], ''build_failure''),
    (lit ''Error: Command failed: npm install'', ''npm_dependency_error''),
    (seq [lit ''Deployment'', anything, lit ''crashed''], ''deployment_crash''),
    (lit ''OOMKilled'', ''resource_limit''),
    (Alt (lit ''Connection refused'') (lit ''Connection timeout''), ''network_timeout'')]"

text \<open>
  The stack trace pattern
  \<^verbatim>\<open>Traceback \(most recent call last\):.*?(?=\n\n|\Z)\<close>, searched with
  \<^verbatim>\<open>re.DOTALL\<close> and without \<^verbatim>\<open>re.IGNORECASE\<close>: the marker line, then as
  little as possible up to an empty line or the end of the text.
\<close>

definition stack_trace_pattern :: rx where
  "stack_trace_pattern =
     seq [lits ''Traceback (most recent call last):'', Rep DotAll 0 False,
          Ahead (Alt (lits [CHR 0x0A, CHR 0x0A]) AtEnd)]"

text \<open>The loop over \<^verbatim>\<open>patterns\<close>, left by \<^verbatim>\<open>break\<close> at the first match.\<close>

fun first_match ::
  "(rx \<Rightarrow> string \<Rightarrow> match option) \<Rightarrow> (rx \<times> string) list \<Rightarrow> string \<Rightarrow> (string \<times> match) option" where
  "first_match search [] logs = None"
| "first_match search ((pattern, etype) # rest) logs =
     (case search pattern logs of
        Some m \<Rightarrow> Some (etype, m)
      | None \<Rightarrow> first_match search rest logs)"

definition initial_analysis :: pydict where
  "initial_analysis = Map.empty
     (''error_type'' \<mapsto> PStr ''unknown'',
      ''error_message'' \<mapsto> PStr [],
      ''stack_trace'' \<mapsto> PStr [],
      ''fixable'' \<mapsto> PBool False,
      ''suggested_fix'' \<mapsto> PNone,
      ''severity'' \<mapsto> PStr ''medium'')"

text \<open>The body of the loop at the matching rule; \<^verbatim>\<open>match.lastindex\<close> is set exactly when
  the pattern has a group.\<close>

definition record_match :: "pydict \<Rightarrow> string \<Rightarrow> match \<Rightarrow> pydict" where
  "record_match analysis etype m =
     (let analysis = analysis
            (''error_type'' \<mapsto> PStr etype,
             ''error_message'' \<mapsto> PStr (group0 m),
             ''fixable'' \<mapsto> PBool (etype \<in> set strategy_names));
          captured = (case group1 m of None \<Rightarrow> PNone | Some g \<Rightarrow> PStr g)
      in if etype = ''missing_dependency'' then analysis(''missing_package'' \<mapsto> captured)
         else if etype = ''test_timeout'' then analysis(''test_name'' \<mapsto> captured)
         else analysis)"

definition severity_of :: "pyval \<Rightarrow> string" where
  "severity_of resolved_type =
     (if resolved_type \<in> {PStr ''deployment_crash'', PStr ''resource_limit''} then ''critical''
      else if resolved_type \<in> {PStr ''missing_dependency'', PStr ''build_failure''} then ''high''
      else ''medium'')"

definition analyze_failure :: "(rx \<Rightarrow> string \<Rightarrow> match option) \<Rightarrow> string \<Rightarrow> pydict" where
  "analyze_failure search logs =
     (let analysis = initial_analysis;
          analysis = (case first_match search patterns logs of
                        None \<Rightarrow> analysis
                      | Some (etype, m) \<Rightarrow> record_match analysis etype m);
          analysis = (case search stack_trace_pattern logs of
                        None \<Rightarrow> analysis
                      | Some m \<Rightarrow> analysis(''stack_trace'' \<mapsto> PStr (group0 m)));
          resolved_type = get_default analysis ''error_type'' (PStr ''unknown'')
      in analysis(''severity'' \<mapsto> PStr (severity_of resolved_type)))"

subsection \<open>The repository behind \<^verbatim>\<open>self.repo\<close>\<close>

text \<open>
  The PyGithub repository object is a collaborator: its three operations used by
  \<^verbatim>\<open>fix_missing_dependency\<close> are parameters, over a state \<open>'r\<close> of the remote
  repository.  \<open>get_contents r path ref\<close> returns the decoded content and the blob sha or
  raises; \<open>update_file r path message content sha branch\<close> and
  \<open>create_file r path message content branch\<close> return the repository after the commit
  or raise.  \<^verbatim>\<open>self.repo\<close> is \<open>None\<close> when the engine has no repository.
\<close>

record 'r github =
  get_contents :: "'r \<Rightarrow> string \<Rightarrow> pyval \<Rightarrow> exn + string \<times> string"
  update_file :: "'r \<Rightarrow> string \<Rightarrow> string \<Rightarrow> string \<Rightarrow> string \<Rightarrow> pyval \<Rightarrow> exn + 'r"
  create_file :: "'r \<Rightarrow> string \<Rightarrow> string \<Rightarrow> string \<Rightarrow> pyval \<Rightarrow> exn + 'r"

record outcome =
  success :: bool
  details :: string
  changes_made :: "string list option"

record heal_result = outcome +
  action_type :: string

type_synonym 'r strategy = "'r option \<Rightarrow> pydict \<Rightarrow> pydict \<Rightarrow> (exn + outcome) \<times> 'r option"

text \<open>
  The \<^verbatim>\<open>try\<close> block of \<^verbatim>\<open>fix_missing_dependency\<close>.  The test
  \<^verbatim>\<open>missing_package in current_content\<close> is the substring test on strings and raises a
  TypeError when \<^verbatim>\<open>missing_package\<close> is not a string.
\<close>

definition read_requirements :: "'r github \<Rightarrow> 'r option \<Rightarrow> pyval \<Rightarrow> string \<times> string option" where
  "read_requirements api repo branch =
     (case repo of
        None \<Rightarrow> ([], None)
      | Some r \<Rightarrow>
          (case get_contents api r ''requirements.txt'' branch of
             Inl e \<Rightarrow> ([], None)
           | Inr (content, sha) \<Rightarrow> (content, Some sha)))"

definition add_missing_dependency ::
  "'r github \<Rightarrow> 'r option \<Rightarrow> pyval \<Rightarrow> pydict \<Rightarrow> (exn + outcome) \<times> 'r option" where
  "add_missing_dependency api repo missing_package workflow_run =
     (let branch = get_default workflow_run ''head_branch'' (PStr ''main'');
          (current_content, requirements_file) = read_requirements api repo branch
      in case missing_package of
           PStr package \<Rightarrow>
             if sublist package current_content then
               (Inr \<lparr>success = False,
                     details = package @ '' already in requirements.txt'',
                     changes_made = None\<rparr>, repo)
             else
               let new_content =
                     lstrip_newline (strip current_content @ [CHR 0x0A] @ package @ [CHR 0x0A]);
                   commit_message = ''[AUTO-HEAL] Add missing dependency: '' @ package
               in (case repo of
                     Some r \<Rightarrow>
                       (case (if current_content \<noteq> [] then
                                (case requirements_file of
                                   Some sha \<Rightarrow>
                                     update_file api r ''requirements.txt'' commit_message
                                       new_content sha branch
                                 | None \<Rightarrow> Inl (Exception ''NoneType object has no attribute sha''))
                              else
                                create_file api r ''requirements.txt'' commit_message
                                  new_content branch) of
                          Inl e \<Rightarrow> (Inl e, repo)
                        | Inr r' \<Rightarrow>
                            (Inr \<lparr>success = True,
                                  details = ''Added '' @ package @ '' to requirements.txt'',
                                  changes_made = Some [''requirements.txt: +'' @ package]\<rparr>,
                             Some r'))
                   | None \<Rightarrow>
                       (Inr \<lparr>success = False,
                             details = ''Repository not configured; would add missing dependency in a real run'',
                             changes_made = Some [''requirements.txt: +'' @ package @ '' (suggested)'']\<rparr>,
                        repo))
         | _ \<Rightarrow> (Inl (Exception ''in <string> requires string as left operand''), repo))"

definition fix_missing_dependency :: "'r github \<Rightarrow> 'r strategy" where
  "fix_missing_dependency api repo analysis workflow_run =
     (let missing_package = get analysis ''missing_package''
      in if \<not> truthy missing_package then
           (Inr \<lparr>success = False, details = ''Could not identify missing package'',
                 changes_made = None\<rparr>, repo)
         else
           (case add_missing_dependency api repo missing_package workflow_run of
              (Inr result, repo') \<Rightarrow> (Inr result, repo')
            | (Inl (Exception e), repo') \<Rightarrow>
                (Inr \<lparr>success = False, details = ''Error updating requirements: '' @ e,
                      changes_made = None\<rparr>, repo')))"

text \<open>
  The registry \<^verbatim>\<open>self.strategies\<close>.  Of its seven methods only
  \<^verbatim>\<open>fix_missing_dependency\<close> is modelled; the other six are the parameter \<open>others\<close>.
\<close>

definition strategies :: "'r github \<Rightarrow> (string \<Rightarrow> 'r strategy) \<Rightarrow> (string \<rightharpoonup> 'r strategy)" where
  "strategies api others =
     (\<lambda>name. if name = ''missing_dependency'' then Some (fix_missing_dependency api)
             else if name \<in> set strategy_names then Some (others name)
             else None)"

text \<open>
  \<^verbatim>\<open>heal\<close>; \<open>str_of\<close> is Python's \<^verbatim>\<open>str()\<close>, used to print the error type.  The
  counter \<^verbatim>\<open>PIPELINE_HEAL_ACTIONS\<close> is not modelled.
\<close>

definition heal ::
  "(pyval \<Rightarrow> string) \<Rightarrow> (string \<rightharpoonup> 'r strategy) \<Rightarrow> 'r option \<Rightarrow> pyval \<Rightarrow> pydict \<Rightarrow> pydict
     \<Rightarrow> heal_result \<times> 'r option" where
  "heal str_of registry repo run_id failure_analysis workflow_run =
     (let error_type = get_default failure_analysis ''error_type'' (PStr ''unknown'')
      in case (case error_type of PStr name \<Rightarrow> map_option (Pair name) (registry name) | _ \<Rightarrow> None) of
           None \<Rightarrow>
             (\<lparr>success = False,
               details = ''No healing strategy for '' @ str_of error_type,
               changes_made = None,
               action_type = ''none''\<rparr>, repo)
         | Some (name, strategy) \<Rightarrow>
             (case strategy repo failure_analysis workflow_run of
                (Inr result, repo') \<Rightarrow>
                  (\<lparr>success = success result,
                    details = details result,
                    changes_made = Some (case changes_made result of None \<Rightarrow> [] | Some c \<Rightarrow> c),
                    action_type = name\<rparr>, repo')
              | (Inl (Exception e), repo') \<Rightarrow>
                  (\<lparr>success = False,
                    details = ''Error during healing: '' @ e,
                    changes_made = None,
                    action_type = name\<rparr>, repo')))"

section \<open>ml\_predictor.py: FailurePredictor\<close>

text \<open>
  The trained artifacts are collaborators.  A model is the function from the scaled
  feature row to \<^verbatim>\<open>predict_proba(scaled)[0][1]\<close>, the scaler the function from the
  feature row to \<^verbatim>\<open>transform([features])\<close>; either may raise.  A field is \<open>None\<close>
  when the attribute is \<^verbatim>\<open>None\<close>.
\<close>

record predictor =
  failure_model :: "(real list \<Rightarrow> exn + real) option"
  healing_model :: "(real list \<Rightarrow> exn + real) option"
  scaler :: "(pyval list \<Rightarrow> exn + real list) option"
  is_model_loaded :: bool

definition transform :: "predictor \<Rightarrow> pyval list \<Rightarrow> exn + real list" where
  "transform p features =
     (case scaler p of
        None \<Rightarrow> Inl (Exception ''NoneType object has no attribute transform'')
      | Some f \<Rightarrow> f features)"

definition predict_proba :: "(real list \<Rightarrow> exn + real) option \<Rightarrow> real list \<Rightarrow> exn + real" where
  "predict_proba model scaled =
     (case model of
        None \<Rightarrow> Inl (Exception ''NoneType object has no attribute predict_proba'')
      | Some f \<Rightarrow> f scaled)"

definition replace_Z :: "string \<Rightarrow> string" where
  "replace_Z s = concat (map (\<lambda>c. if c = CHR ''Z'' then ''+00:00'' else [c]) s)"

text \<open>
  \<^verbatim>\<open>_extract_features\<close>.  The datetime library and the current time are the parameter
  \<open>clock\<close>: from the text given to \<^verbatim>\<open>datetime.fromisoformat\<close> it returns the hour, the
  weekday and the age in days, or raises.
\<close>

definition extract_features :: "(string \<Rightarrow> exn + int \<times> int \<times> int) \<Rightarrow> pydict \<Rightarrow> exn + pyval list" where
  "extract_features clock run =
     (case get_default run ''created_at'' (PStr ''2025-01-01T00:00:00'') of
        PStr s \<Rightarrow>
          (case clock (replace_Z s) of
             Inl e \<Rightarrow> Inl e
           | Inr (hour, weekday, days) \<Rightarrow>
               Inr [get_default run ''build_duration_avg'' (PInt 300),
                    get_default run ''test_count'' (PInt 50),
                    get_default run ''changed_files'' (PInt 5),
                    get_default run ''commit_size'' (PInt 120),
                    PInt hour,
                    PInt weekday,
                    get_default run ''previous_failures'' (PInt 0),
                    get_default run ''dependency_changes'' (PInt 0),
                    get_default run ''code_complexity'' (PInt 10),
                    get_default run ''test_coverage'' (PInt 80),
                    get_default run ''author_failure_rate'' (PFloat 0.10),
                    PInt days])
      | _ \<Rightarrow> Inl (Exception ''object has no attribute replace''))"

text \<open>\<^verbatim>\<open>_healing_features\<close>; \<^verbatim>\<open>len\<close> raises on a value that is not a string.\<close>

definition healing_features :: "pydict \<Rightarrow> exn + pyval list" where
  "healing_features f =
     (case get_default f ''stack_trace'' (PStr []) of
        PStr trace \<Rightarrow>
          Inr [PFloat (if truthy (get f ''fixable'') then 1.0 else 0.0),
               PInt (int (length trace)),
               PFloat (if truthy (get f ''missing_package'') then 1.0 else 0.0),
               (if get f ''severity'' = PStr ''critical'' then PInt 1
                else if get f ''severity'' = PStr ''high'' then PFloat 0.8
                else if get f ''severity'' = PStr ''medium'' then PFloat 0.5
                else PFloat 0.3),
               PFloat 0.8]
      | _ \<Rightarrow> Inl (Exception ''object has no len()''))"

definition risk :: "real \<Rightarrow> string" where
  "risk p =
     (if p \<ge> 0.8 then ''very_high''
      else if p \<ge> 0.6 then ''high''
      else if p \<ge> 0.4 then ''medium''
      else if p \<ge> 0.2 then ''low''
      else ''very_low'')"

text \<open>Ordering comparisons of a feature with a number; they raise on \<open>None\<close> and on a string.\<close>

definition number :: "pyval \<Rightarrow> exn + real" where
  "number v =
     (case v of
        PInt i \<Rightarrow> Inr (real_of_int i)
      | PFloat x \<Rightarrow> Inr x
      | PBool b \<Rightarrow> Inr (if b then 1 else 0)
      | _ \<Rightarrow> Inl (Exception ''comparison not supported between these types''))"

definition factors :: "pyval list \<Rightarrow> exn + string list" where
  "factors features =
     (if length features < 10 then Inl (Exception ''list index out of range'')
      else
        (case number (features ! 6) of Inl e \<Rightarrow> Inl e | Inr f6 \<Rightarrow>
        (case number (features ! 7) of Inl e \<Rightarrow> Inl e | Inr f7 \<Rightarrow>
        (case number (features ! 3) of Inl e \<Rightarrow> Inl e | Inr f3 \<Rightarrow>
        (case number (features ! 9) of Inl e \<Rightarrow> Inl e | Inr f9 \<Rightarrow>
          (let output = (if f6 > 2 then [''High recent failure rate''] else [])
                      @ (if f7 > 0 then [''Dependency changes''] else [])
                      @ (if f3 > 300 then [''Large commit size''] else [])
                      @ (if f9 < 70 then [''Low test coverage''] else [])
           in Inr (if output = [] then [''No major risk factors''] else output)))))))"

datatype prediction =
    PredictionError string
  | Prediction (will_fail: bool) (confidence: real) (risk_level: string) (risk_factors: "string list")

text \<open>The \<^verbatim>\<open>try\<close> block of \<^verbatim>\<open>predict_failure\<close>.\<close>

definition score_failure :: "predictor \<Rightarrow> (string \<Rightarrow> exn + int \<times> int \<times> int) \<Rightarrow> pydict \<Rightarrow> exn + prediction" where
  "score_failure p clock workflow_run =
     (case extract_features clock workflow_run of Inl e \<Rightarrow> Inl e | Inr features \<Rightarrow>
     (case transform p features of Inl e \<Rightarrow> Inl e | Inr scaled \<Rightarrow>
     (case predict_proba (failure_model p) scaled of Inl e \<Rightarrow> Inl e | Inr prob \<Rightarrow>
     (case factors features of Inl e \<Rightarrow> Inl e | Inr fs \<Rightarrow>
        Inr (Prediction (prob > 0.5) prob (risk prob) fs)))))"

definition predict_failure :: "predictor \<Rightarrow> (string \<Rightarrow> exn + int \<times> int \<times> int) \<Rightarrow> pydict \<Rightarrow> prediction" where
  "predict_failure p clock workflow_run =
     (if \<not> is_model_loaded p then PredictionError ''Model not loaded''
      else
        case score_failure p clock workflow_run of
          Inr result \<Rightarrow> result
        | Inl (Exception e) \<Rightarrow> PredictionError e)"

text \<open>The \<^verbatim>\<open>try\<close> block of \<^verbatim>\<open>predict_healing_success\<close>.\<close>

definition score_healing :: "predictor \<Rightarrow> pydict \<Rightarrow> exn + real" where
  "score_healing p failure_analysis =
     (if healing_model p = None then Inr 0.5
      else
        (case healing_features failure_analysis of Inl e \<Rightarrow> Inl e | Inr features \<Rightarrow>
        (case transform p features of Inl e \<Rightarrow> Inl e | Inr scaled \<Rightarrow>
           predict_proba (healing_model p) scaled)))"

text \<open>
  \<^verbatim>\<open>predict_healing_success\<close>, with the result type of a computation that may raise:
  \<open>Inr x\<close> is the returned float, \<open>Inl e\<close> an exception that reaches the caller.
\<close>

definition predict_healing_success :: "predictor \<Rightarrow> pydict \<Rightarrow> exn + real" where
  "predict_healing_success p failure_analysis =
     (case score_healing p failure_analysis of
        Inr prob \<Rightarrow> Inr prob
      | Inl e \<Rightarrow> Inr 0.5)"

section \<open>The monitor: main.py and monitor\_safe.py\<close>

text \<open>
  What the monitor does to its collaborators is recorded as a list of events, oldest
  first: a row written by \<^verbatim>\<open>db.create_failure_log\<close> or
  \<^verbatim>\<open>db.create_healing_action\<close>, a call of \<^verbatim>\<open>healing_engine.heal\<close>, a rerun
  request, a notification, and the three Prometheus metrics
  (\<^verbatim>\<open>PIPELINE_RUNS.inc()\<close>, \<^verbatim>\<open>PIPELINE_PRED_CONF.set(x)\<close>,
  \<^verbatim>\<open>PIPELINE_SUCCESS.inc()\<close>).  Run ids are the values found under the key
  \<^verbatim>\<open>id\<close>; GitHub sends integers.
\<close>

datatype event =
    FailureLogCreated pyval pyval
  | HealInvoked pyval
  | HealingActionCreated pyval string bool
  | RerunRequested pyval
  | NotificationSent pyval
  | RunObserved pyval
  | ConfidenceSet real
  | SuccessCounted pyval

text \<open>
  The collaborators and library functions: \<^verbatim>\<open>re.search\<close>, \<^verbatim>\<open>str\<close>, the datetime
  library, the loaded predictor, the repository operations, the six strategies that are
  not modelled, \<^verbatim>\<open>github_monitor.fetch_workflow_logs\<close> (it catches its own exceptions
  and always returns text), \<^verbatim>\<open>github_get\<close> on a logs url followed by
  \<^verbatim>\<open>json.dumps\<close> (\<open>None\<close> for an empty answer), the two database writes (\<open>Some e\<close>
  when the write raises), and the choice made by \<^verbatim>\<open>set.pop()\<close>, which removes an
  arbitrary element: \<open>set_pop\<close> gives the position, reduced modulo the size, of the
  element removed from the set listed in insertion order.
\<close>

record 'r env =
  search_fn :: "rx \<Rightarrow> string \<Rightarrow> match option"
  str_fn :: "pyval \<Rightarrow> string"
  clock_fn :: "string \<Rightarrow> exn + int \<times> int \<times> int"
  ml_predictor :: predictor
  github_api :: "'r github"
  other_strategies :: "string \<Rightarrow> 'r strategy"
  fetch_workflow_logs :: "pyval \<Rightarrow> string"
  github_get :: "pyval \<Rightarrow> exn + string option"
  create_failure_log :: "pyval \<Rightarrow> pyval \<Rightarrow> exn option"
  create_healing_action :: "pyval \<Rightarrow> string \<Rightarrow> bool \<Rightarrow> exn option"
  set_pop :: "pyval list \<Rightarrow> nat"

text \<open>
  The mutable state: the remote repository, the events so far, the global
  \<^verbatim>\<open>last_seen_run\<close> of main.py and the global set \<^verbatim>\<open>last_seen\<close> of monitor\_safe.py,
  kept as the list of its elements in insertion order, oldest first.
\<close>

record 'r state =
  repository :: "'r option"
  events :: "event list"
  last_seen_run :: pyval
  last_seen :: "pyval list"

definition emit :: "event \<Rightarrow> 'r state \<Rightarrow> 'r state" where
  "emit e st = st\<lparr>events := events st @ [e]\<rparr>"

definition invoke_heal :: "'r env \<Rightarrow> pyval \<Rightarrow> pydict \<Rightarrow> pydict \<Rightarrow> 'r state \<Rightarrow> heal_result \<times> 'r state" where
  "invoke_heal env run_id failure_analysis workflow_run st =
     (let st = emit (HealInvoked run_id) st;
          (healing_result, repo') =
             heal (str_fn env) (strategies (github_api env) (other_strategies env)) (repository st)
               run_id failure_analysis workflow_run
      in (healing_result, st\<lparr>repository := repo'\<rparr>))"

subsection \<open>main.py: handle\_pipeline\_failure\<close>

text \<open>
  An exception raised by a database write leaves the function through its outer
  \<^verbatim>\<open>except\<close>: the rest of the body is skipped.
\<close>

definition handle_pipeline_failure :: "'r env \<Rightarrow> 'r state \<Rightarrow> pyval \<Rightarrow> pydict \<Rightarrow> 'r state" where
  "handle_pipeline_failure env st run_id workflow_run =
     (let logs = fetch_workflow_logs env run_id;
          failure_analysis = analyze_failure (search_fn env) logs;
          error_type = get_default failure_analysis ''error_type'' (PStr ''unknown'')
      in case create_failure_log env run_id error_type of
           Some e \<Rightarrow> st
         | None \<Rightarrow>
            (let st = emit (FailureLogCreated run_id error_type) st
             in case predict_healing_success (ml_predictor env) failure_analysis of
                  Inl e \<Rightarrow> st
                | Inr success_probability \<Rightarrow>
                    if success_probability > 0.70 then
                      (let (healing_result, st) = invoke_heal env run_id failure_analysis workflow_run st
                       in case create_healing_action env run_id (action_type healing_result)
                                 (success healing_result) of
                            Some e \<Rightarrow> st
                          | None \<Rightarrow>
                             (let st = emit (HealingActionCreated run_id (action_type healing_result)
                                               (success healing_result)) st
                              in if success healing_result then emit (RerunRequested run_id) st
                                 else emit (NotificationSent run_id) st))
                    else emit (NotificationSent run_id) st))"

subsection \<open>What both polling loops do with a run they have not skipped\<close>

definition payload_of :: "pydict \<Rightarrow> pydict" where
  "payload_of run = Map.empty
     (''created_at'' \<mapsto> get run ''created_at'',
      ''commit_size'' \<mapsto> py_or (get run ''run_attempt'') (PInt 0),
      ''previous_failures'' \<mapsto> py_or (get run ''run_number'') (PInt 0),
      ''test_coverage'' \<mapsto> get_default run ''test_coverage'' (PInt 0),
      ''changed_files'' \<mapsto> get_default run ''changed_files'' (PInt 0),
      ''dependency_changes'' \<mapsto> get_default run ''dependency_changes'' (PInt 0),
      ''code_complexity'' \<mapsto> get_default run ''code_complexity'' (PInt 0),
      ''test_count'' \<mapsto> get_default run ''test_count'' (PInt 0))"

definition confidence_metric :: "prediction \<Rightarrow> real" where
  "confidence_metric prediction =
     (case prediction of PredictionError e \<Rightarrow> 0.0 | Prediction w prob r f \<Rightarrow> prob)"

definition logs_text_of :: "'r env \<Rightarrow> pydict \<Rightarrow> string" where
  "logs_text_of env run =
     (let logs_url = get run ''logs_url''
      in if truthy logs_url then
           (case github_get env logs_url of
              Inl e \<Rightarrow> ''NO LOGS''
            | Inr None \<Rightarrow> ''NO LOGS''
            | Inr (Some dumped) \<Rightarrow> dumped)
         else ''NO LOGS'')"

text \<open>
  The body of each loop from the log line "observed" on is the same text in
  \<^verbatim>\<open>monitor_pipelines\<close> and in \<^verbatim>\<open>run_safe_monitor\<close>: count the run, predict and set
  the confidence gauge, count a success, and on a failure fetch the logs, analyse, score
  and call \<^verbatim>\<open>heal\<close> when \<^verbatim>\<open>prob and float(prob) > 0.7\<close>.  In this model
  \<^verbatim>\<open>analyze_failure\<close>, \<^verbatim>\<open>predict_healing_success\<close> and \<^verbatim>\<open>heal\<close> do not raise, so
  the handlers around the three calls stay unused, but for the fallback probability 0.0.
\<close>

definition healing_probability :: "'r env \<Rightarrow> pydict \<Rightarrow> real" where
  "healing_probability env analysis =
     (case predict_healing_success (ml_predictor env) analysis of
        Inl e \<Rightarrow> 0.0
      | Inr prob \<Rightarrow> prob)"

definition process_run :: "'r env \<Rightarrow> pyval \<Rightarrow> pydict \<Rightarrow> 'r state \<Rightarrow> 'r state" where
  "process_run env run_id run st =
     (let conclusion = get run ''conclusion'';
          st = emit (RunObserved run_id) st;
          prediction = predict_failure (ml_predictor env) (clock_fn env) (payload_of run);
          st = emit (ConfidenceSet (confidence_metric prediction)) st;
          st = (if conclusion = PStr ''success'' then emit (SuccessCounted run_id) st else st)
      in if conclusion = PStr ''failure'' then
           (let logs_text = logs_text_of env run;
                analysis = analyze_failure (search_fn env) logs_text;
                prob = healing_probability env analysis
            in if prob \<noteq> 0 \<and> prob > 0.7 then snd (invoke_heal env run_id analysis run st)
               else st)
         else st)"

datatype item = NotADict | RunDict pydict

subsection \<open>main.py: monitor\_pipelines\<close>

definition pipelines_run :: "'r env \<Rightarrow> 'r state \<Rightarrow> item \<Rightarrow> 'r state" where
  "pipelines_run env st it =
     (case it of
        NotADict \<Rightarrow> st
      | RunDict run \<Rightarrow>
          (let run_id = get run ''id''
           in if \<not> truthy run_id then st
              else if run_id = last_seen_run st then st
              else process_run env run_id run (st\<lparr>last_seen_run := run_id\<rparr>)))"

text \<open>One pass of the \<^verbatim>\<open>while True\<close> loop over the list \<^verbatim>\<open>runs_data\<close> of a poll,
  and the loop over the polls made so far.\<close>

definition pipelines_cycle :: "'r env \<Rightarrow> 'r state \<Rightarrow> item list \<Rightarrow> 'r state" where
  "pipelines_cycle env st runs_data = foldl (pipelines_run env) st runs_data"

definition monitor_pipelines :: "'r env \<Rightarrow> 'r state \<Rightarrow> item list list \<Rightarrow> 'r state" where
  "monitor_pipelines env st polls = foldl (pipelines_cycle env) st polls"

subsection \<open>monitor\_safe.py: run\_safe\_monitor\<close>

text \<open>\<^verbatim>\<open>while len(last_seen) > 100: last_seen.pop()\<close>\<close>

function evict :: "(pyval list \<Rightarrow> nat) \<Rightarrow> pyval list \<Rightarrow> pyval list" where
  "evict pop seen =
     (if length seen > 100 then
        (let i = pop seen mod length seen in evict pop (take i seen @ drop (Suc i) seen))
      else seen)"
  by pat_completeness auto
termination
proof (relation "measure (\<lambda>(pop, seen). length seen)", goal_cases)
  case 1
  show ?case by simp
next
  case (2 pop seen i)
  from 2 have "0 < length seen" by linarith
  then have "pop seen mod length seen < length seen" by (rule mod_less_divisor)
  with 2 show ?case by simp
qed

declare evict.simps [simp del]

text \<open>\<^verbatim>\<open>last_seen.add(run_id)\<close> for a new id, then the size limit.\<close>

definition remember :: "(pyval list \<Rightarrow> nat) \<Rightarrow> pyval list \<Rightarrow> pyval \<Rightarrow> pyval list" where
  "remember pop seen run_id =
     (let seen = seen @ [run_id]
      in if length seen > 200 then evict pop seen else seen)"

definition safe_run :: "'r env \<Rightarrow> 'r state \<Rightarrow> item \<Rightarrow> 'r state" where
  "safe_run env st it =
     (case it of
        NotADict \<Rightarrow> st
      | RunDict run \<Rightarrow>
          (let run_id = get run ''id''
           in if run_id = PNone then st
              else if run_id \<in> set (last_seen st) then st
              else process_run env run_id run
                     (st\<lparr>last_seen := remember (set_pop env) (last_seen st) run_id\<rparr>)))"

text \<open>What \<^verbatim>\<open>github_get\<close> answered to a poll.\<close>

datatype response =
    Raised exn
  | NotADictResponse
  | RunsNotAList
  | WorkflowRuns "item list"

definition safe_cycle :: "'r env \<Rightarrow> 'r state \<Rightarrow> response \<Rightarrow> 'r state" where
  "safe_cycle env st raw =
     (case raw of
        Raised e \<Rightarrow> st
      | NotADictResponse \<Rightarrow> st
      | RunsNotAList \<Rightarrow> st
      | WorkflowRuns runs \<Rightarrow> foldl (safe_run env) st runs)"

definition run_safe_monitor :: "'r env \<Rightarrow> 'r state \<Rightarrow> response list \<Rightarrow> 'r state" where
  "run_safe_monitor env st polls = foldl (safe_cycle env) st polls"

text \<open>
  The rows that the monitor writes to the database (a FailureRecord is a row of
  \<^verbatim>\<open>failure_logs\<close>, a RemediationAttempt a row of \<^verbatim>\<open>healing_actions\<close>), and the runs
  that a poll delivers to the loop.
\<close>

fun is_db_row :: "event \<Rightarrow> bool" where
  "is_db_row (FailureLogCreated run_id error_type) = True"
| "is_db_row (HealingActionCreated run_id action ok) = True"
| "is_db_row e = False"

fun is_failure_record :: "event \<Rightarrow> bool" where
  "is_failure_record (FailureLogCreated run_id error_type) = True"
| "is_failure_record e = False"

fun runs_of :: "response \<Rightarrow> item list" where
  "runs_of (WorkflowRuns runs) = runs"
| "runs_of raw = []"

text \<open>The run ids that a sequence of polls delivers to the loop of \<^verbatim>\<open>run_safe_monitor\<close>.\<close>

fun item_id :: "item \<Rightarrow> pyval" where
  "item_id NotADict = PNone"
| "item_id (RunDict run) = get run ''id''"

definition delivered_ids :: "response list \<Rightarrow> pyval set" where
  "delivered_ids polls = item_id ` set (concat (map runs_of polls)) - {PNone}"

section \<open>Concrete inputs\<close>

text \<open>
  A log that matches the first rule of both classifiers (missing\_dependency) and one of
  their test\_failure rules, with the assertion error first in the text.
\<close>

definition two_rule_log :: string where
  "two_rule_log =
     ''AssertionError: boom\<newline>ModuleNotFoundError: No module named 'pandas' in app.py''"


text \<open>
  A predictor whose healing model is absent; one whose healing model is present but
  whose scaler, fitted on the twelve run features, rejects the five healing features;
  one whose failure model answers 0.5; one whose healing model answers a given
  probability.
\<close>

definition no_healing_model :: predictor where
  "no_healing_model =
     \<lparr>failure_model = Some (\<lambda>scaled. Inr 0.9), healing_model = None,
      scaler = Some (\<lambda>features. Inr []), is_model_loaded = True\<rparr>"

definition mismatched_scaler :: predictor where
  "mismatched_scaler =
     \<lparr>failure_model = Some (\<lambda>scaled. Inr 0.9), healing_model = Some (\<lambda>scaled. Inr 0.9),
      scaler = Some (\<lambda>features. if length features = 12 then Inr []
                      else Inl (Exception ''X has 5 features, but StandardScaler is expecting 12 features as input.'')),
      is_model_loaded = True\<rparr>"

definition even_odds :: predictor where
  "even_odds =
     \<lparr>failure_model = Some (\<lambda>scaled. Inr 0.5), healing_model = None,
      scaler = Some (\<lambda>features. Inr []), is_model_loaded = True\<rparr>"

definition healing_scores :: "real \<Rightarrow> predictor" where
  "healing_scores prob =
     \<lparr>failure_model = Some (\<lambda>scaled. Inr 0.9), healing_model = Some (\<lambda>scaled. Inr prob),
      scaler = Some (\<lambda>features. Inr []), is_model_loaded = True\<rparr>"

definition monday_noon :: "string \<Rightarrow> exn + int \<times> int \<times> int" where
  "monday_noon s = Inr (12, 0, 3)"

definition a_run :: pydict where
  "a_run = Map.empty (''created_at'' \<mapsto> PStr ''2025-06-02T12:00:00Z'')"


text \<open>
  A repository held in memory, one branch, as a map from paths to contents:
  \<^verbatim>\<open>get_contents\<close> and \<^verbatim>\<open>update_file\<close> raise on a missing file,
  \<^verbatim>\<open>create_file\<close> on an existing one.  Its file \<^verbatim>\<open>requirements.txt\<close> lists numpy
  and pandas.
\<close>

definition memory_github :: "(string \<rightharpoonup> string) github" where
  "memory_github =
     \<lparr>get_contents = (\<lambda>files path ref.
        case files path of
          None \<Rightarrow> Inl (Exception ''404 Not Found'')
        | Some content \<Rightarrow> Inr (content, ''3f2a'')),
      update_file = (\<lambda>files path message content sha branch.
        case files path of
          None \<Rightarrow> Inl (Exception ''404 Not Found'')
        | Some old \<Rightarrow> Inr (files(path \<mapsto> content))),
      create_file = (\<lambda>files path message content branch.
        case files path of
          None \<Rightarrow> Inr (files(path \<mapsto> content))
        | Some old \<Rightarrow> Inl (Exception ''422 Unprocessable Entity''))\<rparr>"

definition two_requirements :: "string \<rightharpoonup> string" where
  "two_requirements = Map.empty (''requirements.txt'' \<mapsto> ''numpy\<newline>pandas\<newline>'')"

definition missing :: "string \<Rightarrow> pydict" where
  "missing package = Map.empty (''missing_package'' \<mapsto> PStr package)"


text \<open>
  An environment for the examples: the matcher above, \<^verbatim>\<open>str\<close> on the values that
  occur, a healing model that answers a given probability, the repository in memory, a
  database that accepts every write, and logs that report a missing module.  The six
  strategies that are not modelled report a failure and touch nothing.  The choice of
  \<^verbatim>\<open>set.pop()\<close> is the one CPython makes on a set of small non-negative integers,
  each of which sits in the slot of the hash table given by its value: the smallest
  element goes first.
\<close>

definition str_of_value :: "pyval \<Rightarrow> string" where
  "str_of_value v =
     (case v of
        PStr s \<Rightarrow> s
      | PNone \<Rightarrow> ''None''
      | PBool b \<Rightarrow> (if b then ''True'' else ''False'')
      | _ \<Rightarrow> ''0'')"

definition int_of :: "pyval \<Rightarrow> int" where
  "int_of v = (case v of PInt i \<Rightarrow> i | _ \<Rightarrow> 0)"

fun least_index :: "int list \<Rightarrow> nat" where
  "least_index [] = 0"
| "least_index [x] = 0"
| "least_index (x # y # ys) =
     (if list_all (\<lambda>z. x \<le> z) (y # ys) then 0 else Suc (least_index (y # ys)))"

definition smallest_first :: "pyval list \<Rightarrow> nat" where
  "smallest_first seen = least_index (map int_of seen)"

definition module_log :: string where
  "module_log = ''ModuleNotFoundError: No module named 'requests' in app.py''"

definition untouched :: "(string \<rightharpoonup> string) strategy" where
  "untouched repo analysis workflow_run =
     (Inr \<lparr>success = False, details = ''not modelled'', changes_made = None\<rparr>, repo)"

definition demo_env :: "real \<Rightarrow> (string \<rightharpoonup> string) env" where
  "demo_env prob =
     \<lparr>search_fn = re_search,
      str_fn = str_of_value,
      clock_fn = monday_noon,
      ml_predictor = healing_scores prob,
      github_api = memory_github,
      other_strategies = (\<lambda>name. untouched),
      fetch_workflow_logs = (\<lambda>run_id. module_log),
      github_get = (\<lambda>url. Inr (Some module_log)),
      create_failure_log = (\<lambda>run_id error_type. None),
      create_healing_action = (\<lambda>run_id action success. None),
      set_pop = smallest_first\<rparr>"

definition start :: "(string \<rightharpoonup> string) state" where
  "start = \<lparr>repository = Some two_requirements, events = [], last_seen_run = PNone, last_seen = []\<rparr>"

definition failed_run :: "int \<Rightarrow> pydict" where
  "failed_run n = Map.empty
     (''id'' \<mapsto> PInt n,
      ''conclusion'' \<mapsto> PStr ''failure'',
      ''logs_url'' \<mapsto> PStr ''https://api.github.com/logs'',
      ''created_at'' \<mapsto> PStr ''2025-06-02T12:00:00Z'')"


text \<open>A poll that delivers the failed run 7, and a poll that delivers the failed runs 2 and 1.\<close>

definition poll_7 :: response where
  "poll_7 = WorkflowRuns [RunDict (failed_run 7)]"

definition poll_2_1 :: "item list" where
  "poll_2_1 = [RunDict (failed_run 2), RunDict (failed_run 1)]"


text \<open>
  One answer that lists the failed runs 201, 200, ..., 1, the newest run first, and the
  hundred ids added first.
\<close>

definition newest_first_ids :: "int list" where
  "newest_first_ids = rev [1..201]"

definition poll_201 :: response where
  "poll_201 = WorkflowRuns (map (\<lambda>n. RunDict (failed_run n)) newest_first_ids)"

definition oldest_hundred :: "pyval list" where
  "oldest_hundred = map PInt (rev [102..201])"


text \<open>
  The environment with a healing probability of 0.701 and a database that is not
  connected; a log that reports the missing module pandas, which the manifest already
  lists, and the environment that delivers it; a repository that refuses every update,
  and the environment that holds it.
\<close>

definition db_down_env :: "(string \<rightharpoonup> string) env" where
  "db_down_env =
     (demo_env 0.701)
       \<lparr>create_failure_log := (\<lambda>run_id error_type. Some (Exception ''Database not connected''))\<rparr>"

definition pandas_log :: string where
  "pandas_log = ''ModuleNotFoundError: No module named 'pandas' in app.py''"

definition pandas_env :: "(string \<rightharpoonup> string) env" where
  "pandas_env = (demo_env 0.9)\<lparr>fetch_workflow_logs := (\<lambda>run_id. pandas_log)\<rparr>"

definition read_only_github :: "(string \<rightharpoonup> string) github" where
  "read_only_github =
     memory_github
       \<lparr>update_file := (\<lambda>files path message content sha branch. Inl (Exception ''403 Forbidden''))\<rparr>"

definition read_only_env :: "(string \<rightharpoonup> string) env" where
  "read_only_env = (demo_env 0.9)\<lparr>github_api := read_only_github\<rparr>"

section \<open>Properties of the classifier\<close>

lemma first_match_etype:
  "first_match search ps logs = Some (etype, m) \<Longrightarrow> etype \<in> snd ` set ps"
  by (induction ps) (auto split: option.splits)

lemma first_regex_None:
  "first_regex search rs text = None \<longleftrightarrow> (\<forall>r \<in> set rs. search r text = None)"
  by (induction rs) (auto split: option.splits)

lemma first_match_append_rules:
  "first_match search (map (\<lambda>regex. (regex, ptype)) rs @ rest) text =
     (case first_regex search rs text of
        Some m \<Rightarrow> Some (ptype, m)
      | None \<Rightarrow> first_match search rest text)"
  by (induction rs) (auto split: option.splits)

lemma first_pattern_flat:
  "first_pattern search items text =
     first_match search
       (concat (map (\<lambda>(ptype, regex_list). map (\<lambda>regex. (regex, ptype)) regex_list) items)) text"
  by (induction items) (auto simp: first_match_append_rules split: option.splits)

lemma first_match_index:
  "i < length ps \<Longrightarrow> search (fst (ps ! i)) logs \<noteq> None \<Longrightarrow>
   \<forall>j<i. search (fst (ps ! j)) logs = None \<Longrightarrow>
   \<exists>m. first_match search ps logs = Some (snd (ps ! i), m)"
proof (induction ps arbitrary: i)
  case Nil
  then show ?case by simp
next
  case (Cons p ps)
  obtain pattern etype where p: "p = (pattern, etype)" by (cases p)
  show ?case
  proof (cases i)
    case 0
    with Cons.prems p show ?thesis by auto
  next
    case (Suc k)
    from Cons.prems(3) Suc have first: "search pattern logs = None"
      using p by auto
    from Cons.prems Suc have "k < length ps" "search (fst (ps ! k)) logs \<noteq> None"
      by auto
    moreover from Cons.prems(3) Suc have "\<forall>j<k. search (fst (ps ! j)) logs = None"
      by auto
    ultimately obtain m where "first_match search ps logs = Some (snd (ps ! k), m)"
      using Cons.IH by blast
    with first p Suc show ?thesis by simp
  qed
qed

lemma analyze_failure_error_type:
  "analyze_failure search logs ''error_type'' =
     Some (PStr (case first_match search patterns logs of None \<Rightarrow> ''unknown'' | Some (etype, m) \<Rightarrow> etype))"
  by (simp add: analyze_failure_def Let_def record_match_def initial_analysis_def
        split: option.splits)

lemma analyze_failure_fixable:
  "analyze_failure search logs ''fixable'' =
     Some (PBool (case first_match search patterns logs of None \<Rightarrow> False
                  | Some (etype, m) \<Rightarrow> etype \<in> set strategy_names))"
  by (simp add: analyze_failure_def Let_def record_match_def initial_analysis_def
        split: option.splits)

lemma analyze_failure_severity_key:
  "analyze_failure search logs ''severity'' =
     Some (PStr (severity_of (PStr (case first_match search patterns logs of None \<Rightarrow> ''unknown''
                                     | Some (etype, m) \<Rightarrow> etype))))"
  by (simp add: analyze_failure_def Let_def record_match_def initial_analysis_def get_default_def
        split: option.splits)

lemma identify_pattern_fst:
  "fst (identify_pattern search text) =
     (case first_match search analyzer_rules text of None \<Rightarrow> ''unknown'' | Some (ptype, m) \<Rightarrow> ptype)"
  by (simp add: identify_pattern_def analyzer_rules_def first_pattern_flat split: option.splits)

lemma snd_patterns:
  "snd ` set patterns =
     {''missing_dependency'', ''test_timeout'', ''test_failure'', ''build_failure'',
      ''npm_dependency_error'', ''deployment_crash'', ''resource_limit'', ''network_timeout''}"
  by (auto simp: patterns_def)

lemma snd_analyzer_rules:
  "snd ` set analyzer_rules =
     {''missing_dependency'', ''test_timeout'', ''test_failure'', ''build_failure'',
      ''deployment_crash'', ''resource_limit'', ''network_timeout'', ''syntax_error'',
      ''permission_error'', ''configuration_error''}"
  by (auto simp: analyzer_rules_def analyzer_patterns_def)

text \<open>
  C4, as amended.  For every log text and every behaviour of the regular-expression
  library, the category that \<^verbatim>\<open>HealingEngine.analyze_failure\<close> stores under
  \<^verbatim>\<open>error_type\<close> is a member of the enumeration missing\_dependency, test\_timeout,
  test\_failure, build\_failure, deployment\_crash, resource\_limit, network\_timeout,
  syntax\_error, permission\_error, configuration\_error, unknown extended by
  npm\_dependency\_error, and the category returned by
  \<^verbatim>\<open>FailurePatternAnalyzer.identify_pattern\<close> is a member of the enumeration itself.
\<close>

theorem category_enumeration:
  "get (analyze_failure search logs) ''error_type'' \<in> PStr `
     {''missing_dependency'', ''test_timeout'', ''test_failure'', ''build_failure'',
      ''deployment_crash'', ''resource_limit'', ''network_timeout'', ''syntax_error'',
      ''permission_error'', ''configuration_error'', ''unknown'', ''npm_dependency_error''}
   \<and> fst (identify_pattern search logs) \<in>
     {''missing_dependency'', ''test_timeout'', ''test_failure'', ''build_failure'',
      ''deployment_crash'', ''resource_limit'', ''network_timeout'', ''syntax_error'',
      ''permission_error'', ''configuration_error'', ''unknown''}"
proof
  show "get (analyze_failure search logs) ''error_type'' \<in> PStr `
     {''missing_dependency'', ''test_timeout'', ''test_failure'', ''build_failure'',
      ''deployment_crash'', ''resource_limit'', ''network_timeout'', ''syntax_error'',
      ''permission_error'', ''configuration_error'', ''unknown'', ''npm_dependency_error''}"
  proof (cases "first_match search patterns logs")
    case None
    then show ?thesis by (simp add: get_def analyze_failure_error_type)
  next
    case (Some a)
    obtain etype m where a: "a = (etype, m)" by (cases a)
    with Some have "etype \<in> snd ` set patterns" by (auto dest: first_match_etype)
    then have "etype \<in> {''missing_dependency'', ''test_timeout'', ''test_failure'', ''build_failure'',
      ''npm_dependency_error'', ''deployment_crash'', ''resource_limit'', ''network_timeout''}"
      by (simp only: snd_patterns)
    with Some a show ?thesis by (auto simp: get_def analyze_failure_error_type)
  qed
next
  show "fst (identify_pattern search logs) \<in>
     {''missing_dependency'', ''test_timeout'', ''test_failure'', ''build_failure'',
      ''deployment_crash'', ''resource_limit'', ''network_timeout'', ''syntax_error'',
      ''permission_error'', ''configuration_error'', ''unknown''}"
  proof (cases "first_match search analyzer_rules logs")
    case None
    then show ?thesis by (simp add: identify_pattern_fst)
  next
    case (Some a)
    obtain ptype m where a: "a = (ptype, m)" by (cases a)
    with Some have "ptype \<in> snd ` set analyzer_rules" by (auto dest: first_match_etype)
    then have "ptype \<in> {''missing_dependency'', ''test_timeout'', ''test_failure'', ''build_failure'',
      ''deployment_crash'', ''resource_limit'', ''network_timeout'', ''syntax_error'',
      ''permission_error'', ''configuration_error''}"
      by (simp only: snd_analyzer_rules)
    with Some a show ?thesis by (auto simp: identify_pattern_fst)
  qed
qed


lemma npm_install_error_type:
  "get (analyze_failure re_search ''Error: Command failed: npm install'') ''error_type''
     = PStr ''npm_dependency_error''"
  by code_simp

text \<open>
  C4 as stated fails: the log \<^verbatim>\<open>Error: Command failed: npm install\<close> is classified
  by \<^verbatim>\<open>analyze_failure\<close> as npm\_dependency\_error, which is outside the enumeration.
\<close>

theorem category_enumeration_counterexample:
  "get (analyze_failure re_search ''Error: Command failed: npm install'') ''error_type''
     \<notin> PStr `
     {''missing_dependency'', ''test_timeout'', ''test_failure'', ''build_failure'',
      ''deployment_crash'', ''resource_limit'', ''network_timeout'', ''syntax_error'',
      ''permission_error'', ''configuration_error'', ''unknown''}"
  by (simp add: npm_install_error_type)

text \<open>
  C5.  Rule precedence.  Whatever the regular-expression library answers, if the rule at
  position \<open>i\<close> of the ordered rule list matches the log and no rule before it does,
  then the category is that of rule \<open>i\<close>, also when later rules match as well: for the
  list \<^verbatim>\<open>patterns\<close> of \<^verbatim>\<open>analyze_failure\<close>, and for the rules of
  \<^verbatim>\<open>identify_pattern\<close> in the order in which its two nested loops visit them.
\<close>

theorem first_matching_rule_wins:
  "(i < length patterns \<and> search (fst (patterns ! i)) logs \<noteq> None
      \<and> (\<forall>j<i. search (fst (patterns ! j)) logs = None)
     \<longrightarrow> get (analyze_failure search logs) ''error_type'' = PStr (snd (patterns ! i)))
   \<and> (k < length analyzer_rules \<and> search (fst (analyzer_rules ! k)) logs \<noteq> None
      \<and> (\<forall>j<k. search (fst (analyzer_rules ! j)) logs = None)
     \<longrightarrow> fst (identify_pattern search logs) = snd (analyzer_rules ! k))"
proof (intro conjI impI)
  assume "i < length patterns \<and> search (fst (patterns ! i)) logs \<noteq> None
      \<and> (\<forall>j<i. search (fst (patterns ! j)) logs = None)"
  then obtain m where "first_match search patterns logs = Some (snd (patterns ! i), m)"
    using first_match_index [of i patterns search logs] by blast
  then show "get (analyze_failure search logs) ''error_type'' = PStr (snd (patterns ! i))"
    by (simp add: get_def analyze_failure_error_type)
next
  assume "k < length analyzer_rules \<and> search (fst (analyzer_rules ! k)) logs \<noteq> None
      \<and> (\<forall>j<k. search (fst (analyzer_rules ! j)) logs = None)"
  then obtain m where "first_match search analyzer_rules logs = Some (snd (analyzer_rules ! k), m)"
    using first_match_index [of k analyzer_rules search logs] by blast
  then show "fst (identify_pattern search logs) = snd (analyzer_rules ! k)"
    by (simp add: identify_pattern_fst)
qed

text \<open>
  A log that matches the first rule (missing\_dependency) and a test\_failure rule, with
  the assertion error first in the text: missing\_dependency wins in both classifiers.
\<close>

lemma two_rule_log_matches:
  "re_search (fst (patterns ! 0)) two_rule_log \<noteq> None"
  "re_search (fst (patterns ! 4)) two_rule_log \<noteq> None"
  "re_search (fst (analyzer_rules ! 0)) two_rule_log \<noteq> None"
  "re_search (fst (analyzer_rules ! 9)) two_rule_log \<noteq> None"
  by code_simp+

lemma rule_categories:
  "snd (patterns ! 0) = ''missing_dependency''"
  "snd (patterns ! 4) = ''test_failure''"
  "snd (analyzer_rules ! 0) = ''missing_dependency''"
  "snd (analyzer_rules ! 9) = ''test_failure''"
  by code_simp+

lemma rule_lists_nonempty:
  "patterns \<noteq> []"
  "analyzer_rules \<noteq> []"
  by (simp_all add: patterns_def analyzer_rules_def analyzer_patterns_def)

theorem first_matching_rule_wins_witness:
  "re_search (fst (patterns ! 4)) two_rule_log \<noteq> None
   \<and> snd (patterns ! 4) = ''test_failure''
   \<and> get (analyze_failure re_search two_rule_log) ''error_type'' = PStr ''missing_dependency''
   \<and> re_search (fst (analyzer_rules ! 9)) two_rule_log \<noteq> None
   \<and> snd (analyzer_rules ! 9) = ''test_failure''
   \<and> fst (identify_pattern re_search two_rule_log) = ''missing_dependency''"
  using first_matching_rule_wins [of 0 re_search two_rule_log 0]
  by (simp add: two_rule_log_matches rule_categories rule_lists_nonempty)

text \<open>
  C7.  For every log text, the severity that \<^verbatim>\<open>analyze_failure\<close> stores is critical
  when the category is deployment\_crash or resource\_limit, high when it is
  missing\_dependency or build\_failure, and medium for every other category; and whenever
  the category is unknown, the fixable flag is false.
\<close>

theorem severity_lookup:
  "get (analyze_failure search logs) ''severity'' =
     PStr (if get (analyze_failure search logs) ''error_type''
                \<in> {PStr ''deployment_crash'', PStr ''resource_limit''} then ''critical''
           else if get (analyze_failure search logs) ''error_type''
                \<in> {PStr ''missing_dependency'', PStr ''build_failure''} then ''high''
           else ''medium'')
   \<and> (get (analyze_failure search logs) ''error_type'' = PStr ''unknown''
        \<longrightarrow> get (analyze_failure search logs) ''fixable'' = PBool False)"
  by (auto simp: get_def analyze_failure_error_type analyze_failure_severity_key
        analyze_failure_fixable severity_of_def strategy_names_def split: option.splits)

lemma no_rule_log:
  "get (analyze_failure re_search ''exit status 1'') ''error_type'' = PStr ''unknown''"
  by code_simp

theorem severity_lookup_witness:
  "get (analyze_failure re_search ''exit status 1'') ''error_type'' = PStr ''unknown''
   \<and> get (analyze_failure re_search ''exit status 1'') ''fixable'' = PBool False
   \<and> get (analyze_failure re_search ''exit status 1'') ''severity'' = PStr ''medium''"
  using severity_lookup [of re_search "''exit status 1''"]
  by (simp add: no_rule_log)

lemma count_failing:
  "count_list test_history False = length (filter (\<lambda>passed. \<not> passed) test_history)"
  by (induction test_history) simp_all

text \<open>
  C6.  A history is flagged flaky exactly when it has at least 5 observations and the
  fraction of its failing entries, the number of entries that are \<open>False\<close> divided by
  the number of entries, lies in the closed interval from 0.20 to 0.80; in whole numbers,
  when the failing entries are at least a fifth and at most four fifths of the entries.
  A history of fewer than 5 observations is never flagged.  The history pass, fail,
  pass, fail, pass is flagged and the history of four passes is not.
\<close>

theorem is_flaky_test_iff:
  "(is_flaky_test h \<longleftrightarrow>
      5 \<le> length h
      \<and> 0.20 \<le> real (length (filter (\<lambda>passed. \<not> passed) h)) / real (length h)
      \<and> real (length (filter (\<lambda>passed. \<not> passed) h)) / real (length h) \<le> 0.80)
   \<and> (is_flaky_test h \<longleftrightarrow>
      5 \<le> length h
      \<and> length h \<le> 5 * length (filter (\<lambda>passed. \<not> passed) h)
      \<and> 5 * length (filter (\<lambda>passed. \<not> passed) h) \<le> 4 * length h)
   \<and> (length h < 5 \<longrightarrow> \<not> is_flaky_test h)
   \<and> is_flaky_test [True, False, True, False, True]
   \<and> \<not> is_flaky_test [True, True, True, True]"
proof -
  let ?fails = "length (filter (\<lambda>passed. \<not> passed) h)"
  have rate: "failure_rate h = real ?fails / real (length h)"
    by (simp add: failure_rate_def count_failing)
  have explicit: "is_flaky_test h \<longleftrightarrow>
      5 \<le> length h \<and> 0.20 \<le> real ?fails / real (length h)
      \<and> real ?fails / real (length h) \<le> 0.80"
    by (auto simp: is_flaky_test_def rate)
  have whole: "(5 \<le> length h \<and> 0.20 \<le> real ?fails / real (length h)
      \<and> real ?fails / real (length h) \<le> 0.80)
     \<longleftrightarrow> (5 \<le> length h \<and> length h \<le> 5 * ?fails \<and> 5 * ?fails \<le> 4 * length h)"
  proof (cases "length h = 0")
    case True
    then show ?thesis by simp
  next
    case False
    then have pos: "0 < real (length h)" by simp
    have "0.20 \<le> real ?fails / real (length h) \<longleftrightarrow> real (length h) \<le> 5 * real ?fails"
      using pos by (simp add: field_simps)
    also have "\<dots> \<longleftrightarrow> length h \<le> 5 * ?fails"
      by linarith
    finally have low: "0.20 \<le> real ?fails / real (length h) \<longleftrightarrow> length h \<le> 5 * ?fails" .
    have "real ?fails / real (length h) \<le> 0.80 \<longleftrightarrow> 5 * real ?fails \<le> 4 * real (length h)"
      using pos by (simp add: field_simps)
    also have "\<dots> \<longleftrightarrow> 5 * ?fails \<le> 4 * length h"
      by linarith
    finally have high: "real ?fails / real (length h) \<le> 0.80 \<longleftrightarrow> 5 * ?fails \<le> 4 * length h" .
    from low high show ?thesis by simp
  qed
  have examples: "is_flaky_test [True, False, True, False, True]"
    "\<not> is_flaky_test [True, True, True, True]"
    by (simp_all add: is_flaky_test_def failure_rate_def)
  from explicit whole examples show ?thesis
    by (simp add: is_flaky_test_def)
qed

theorem is_flaky_test_iff_witness:
  "length [True, True, False] < 5 \<and> \<not> is_flaky_test [True, True, False]
   \<and> \<not> is_flaky_test [True, True, True, True, True]
   \<and> is_flaky_test [True, True, True, True, False]
   \<and> \<not> is_flaky_test [False, False, False, False, False]"
  using is_flaky_test_iff [of "[True, True, False]"]
    is_flaky_test_iff [of "[True, True, True, True, True]"]
    is_flaky_test_iff [of "[True, True, True, True, False]"]
    is_flaky_test_iff [of "[False, False, False, False, False]"]
  by simp

section \<open>Properties of the predictor\<close>

text \<open>
  C3.  For every failure analysis, \<^verbatim>\<open>predict_healing_success\<close> returns exactly 0.5 when
  the healing model is absent; for every input it returns a float and raises nothing
  into its caller; and an exception raised while scoring is turned into 0.5.
\<close>

theorem healing_success_fallback:
  "(healing_model p = None \<longrightarrow> predict_healing_success p failure_analysis = Inr 0.5)
   \<and> (\<exists>prob. predict_healing_success p failure_analysis = Inr prob)
   \<and> (score_healing p failure_analysis = Inl e
        \<longrightarrow> predict_healing_success p failure_analysis = Inr 0.5)"
proof (intro conjI impI)
  assume "healing_model p = None"
  then show "predict_healing_success p failure_analysis = Inr 0.5"
    by (simp add: predict_healing_success_def score_healing_def)
next
  show "\<exists>prob. predict_healing_success p failure_analysis = Inr prob"
  proof (cases "score_healing p failure_analysis")
    case (Inl e')
    then have "predict_healing_success p failure_analysis = Inr 0.5"
      by (simp add: predict_healing_success_def)
    then show ?thesis by (rule exI)
  next
    case (Inr prob)
    then have "predict_healing_success p failure_analysis = Inr prob"
      by (simp add: predict_healing_success_def)
    then show ?thesis by (rule exI)
  qed
next
  assume "score_healing p failure_analysis = Inl e"
  then show "predict_healing_success p failure_analysis = Inr 0.5"
    by (simp add: predict_healing_success_def)
qed

lemma mismatched_scaler_raises:
  "score_healing mismatched_scaler Map.empty =
     Inl (Exception ''X has 5 features, but StandardScaler is expecting 12 features as input.'')"
  by (simp add: score_healing_def mismatched_scaler_def healing_features_def transform_def
        get_default_def)

theorem healing_success_fallback_witness:
  "healing_model no_healing_model = None
   \<and> predict_healing_success no_healing_model Map.empty = Inr 0.5
   \<and> score_healing mismatched_scaler Map.empty =
       Inl (Exception ''X has 5 features, but StandardScaler is expecting 12 features as input.'')
   \<and> predict_healing_success mismatched_scaler Map.empty = Inr 0.5"
  using healing_success_fallback [of no_healing_model Map.empty]
    healing_success_fallback [of mismatched_scaler Map.empty
      "Exception ''X has 5 features, but StandardScaler is expecting 12 features as input.''"]
  by (simp add: mismatched_scaler_raises no_healing_model_def)

text \<open>
  C10.  When \<^verbatim>\<open>predict_failure\<close> returns a prediction, the model is loaded, the
  confidence is the probability computed by the failure model, and the flag
  \<^verbatim>\<open>will_fail\<close> is true if and only if that probability is strictly greater than 0.5;
  a probability of exactly 0.5 gives \<^verbatim>\<open>will_fail = False\<close>.
\<close>

theorem will_fail_threshold:
  "predict_failure p clock run = Prediction w prob r fs \<Longrightarrow>
     is_model_loaded p
     \<and> (\<exists>features scaled. extract_features clock run = Inr features
           \<and> transform p features = Inr scaled
           \<and> predict_proba (failure_model p) scaled = Inr prob)
     \<and> (w \<longleftrightarrow> prob > 0.5)
     \<and> (prob = 0.5 \<longrightarrow> \<not> w)"
  by (auto simp: predict_failure_def score_failure_def split: if_splits sum.splits exn.splits)

lemma even_odds_prediction:
  "predict_failure even_odds monday_noon a_run =
     Prediction False 0.5 ''medium'' [''No major risk factors'']"
  by (simp add: predict_failure_def score_failure_def even_odds_def monday_noon_def a_run_def
        extract_features_def transform_def predict_proba_def factors_def number_def risk_def
        get_default_def)

theorem will_fail_threshold_witness:
  "predict_failure even_odds monday_noon a_run =
     Prediction False 0.5 ''medium'' [''No major risk factors'']
   \<and> is_model_loaded even_odds
   \<and> \<not> (0.5 :: real) > 0.5"
  using will_fail_threshold [OF even_odds_prediction]
  by (simp add: even_odds_prediction)

section \<open>Properties of the missing-dependency strategy\<close>

lemma fix_missing_dependency_string:
  assumes "get analysis ''missing_package'' = PStr package" and "package \<noteq> []"
  shows "fix_missing_dependency api repo analysis workflow_run =
           (case add_missing_dependency api repo (PStr package) workflow_run of
              (Inr result, repo') \<Rightarrow> (Inr result, repo')
            | (Inl (Exception e), repo') \<Rightarrow>
                (Inr \<lparr>success = False, details = ''Error updating requirements: '' @ e,
                      changes_made = None\<rparr>, repo'))"
  using assms by (simp add: fix_missing_dependency_def)

lemma fix_missing_dependency_no_package:
  "\<not> truthy (get analysis ''missing_package'') \<Longrightarrow>
     snd (fix_missing_dependency api repo analysis workflow_run) = repo"
  by (simp add: fix_missing_dependency_def)

lemma add_missing_dependency_not_string:
  "\<forall>package. missing_package \<noteq> PStr package \<Longrightarrow>
     snd (add_missing_dependency api repo missing_package workflow_run) = repo"
  by (cases missing_package) (simp_all add: add_missing_dependency_def Let_def split: prod.splits)

lemma snd_fix_missing_dependency:
  "snd (fix_missing_dependency api repo analysis workflow_run) =
     (if truthy (get analysis ''missing_package'')
      then snd (add_missing_dependency api repo (get analysis ''missing_package'') workflow_run)
      else repo)"
  by (auto simp: fix_missing_dependency_def Let_def split: prod.splits sum.splits exn.splits)


lemma read_two_requirements:
  "read_requirements memory_github (Some two_requirements)
     (get_default Map.empty ''head_branch'' (PStr ''main''))
   = (''numpy\<newline>pandas\<newline>'', Some ''3f2a'')"
  by (simp add: read_requirements_def memory_github_def two_requirements_def)

lemma pandas_listed:
  "sublist ''pandas'' ''numpy\<newline>pandas\<newline>''"
  "\<not> sublist ''requests'' ''numpy\<newline>pandas\<newline>''"
  by code_simp+

lemma requests_appended:
  "lstrip_newline (strip ''numpy\<newline>pandas\<newline>'' @ ''\<newline>requests\<newline>'')
   = ''numpy\<newline>pandas\<newline>requests\<newline>''"
  by (simp add: lstrip_newline_def strip_def is_space_def code_point_def)

lemma requests_written:
  "snd (fix_missing_dependency memory_github (Some two_requirements) (missing ''requests'') Map.empty)
   = Some (two_requirements(''requirements.txt'' \<mapsto> ''numpy\<newline>pandas\<newline>requests\<newline>''))"
  using read_two_requirements pandas_listed(2)
  by (simp add: snd_fix_missing_dependency add_missing_dependency_def missing_def get_def
        requests_appended memory_github_def two_requirements_def)

lemma requests_changes_repository:
  "snd (fix_missing_dependency memory_github (Some two_requirements) (missing ''requests'') Map.empty)
   \<noteq> Some two_requirements"
  unfolding requests_written
  by (auto simp: two_requirements_def dest: map_upd_eqD1)


section \<open>Properties of the monitor\<close>

lemma events_emit [simp]:
  "events (emit e st) = events st @ [e]"
  "last_seen (emit e st) = last_seen st"
  "last_seen_run (emit e st) = last_seen_run st"
  "repository (emit e st) = repository st"
  by (simp_all add: emit_def)

lemma invoke_heal_state [simp]:
  "events (snd (invoke_heal env run_id analysis run st)) = events st @ [HealInvoked run_id]"
  "last_seen (snd (invoke_heal env run_id analysis run st)) = last_seen st"
  "last_seen_run (snd (invoke_heal env run_id analysis run st)) = last_seen_run st"
  by (simp_all add: invoke_heal_def Let_def split: prod.splits)

lemma process_run_events:
  "events (process_run env run_id run st) =
     events st
     @ [RunObserved run_id,
        ConfidenceSet (confidence_metric
          (predict_failure (ml_predictor env) (clock_fn env) (payload_of run)))]
     @ (if get run ''conclusion'' = PStr ''success'' then [SuccessCounted run_id] else [])
     @ (if get run ''conclusion'' = PStr ''failure''
           \<and> healing_probability env (analyze_failure (search_fn env) (logs_text_of env run)) > 0.7
        then [HealInvoked run_id] else [])"
  by (simp add: process_run_def Let_def)

lemma process_run_seen [simp]:
  "last_seen (process_run env run_id run st) = last_seen st"
  "last_seen_run (process_run env run_id run st) = last_seen_run st"
  by (simp_all add: process_run_def Let_def)

lemma handle_pipeline_failure_events:
  assumes "predict_healing_success (ml_predictor env)
             (analyze_failure (search_fn env) (fetch_workflow_logs env run_id)) = Inr prob"
  shows "\<exists>rest. (\<forall>x. HealInvoked x \<notin> set rest)
           \<and> events (handle_pipeline_failure env st run_id workflow_run) =
               events st
               @ (if create_failure_log env run_id
                       (get (analyze_failure (search_fn env) (fetch_workflow_logs env run_id))
                          ''error_type'') = None
                  then FailureLogCreated run_id
                         (get (analyze_failure (search_fn env) (fetch_workflow_logs env run_id))
                            ''error_type'')
                       # (if prob > 0.70 then HealInvoked run_id # rest else rest)
                  else [])"
proof -
  let ?a = "analyze_failure (search_fn env) (fetch_workflow_logs env run_id)"
  have et: "get_default ?a ''error_type'' (PStr ''unknown'') = get ?a ''error_type''"
    by (simp add: get_default_def get_def analyze_failure_error_type)
  show ?thesis
  proof (cases "create_failure_log env run_id (get ?a ''error_type'')")
    case (Some e)
    with et show ?thesis
      by (intro exI [of _ "[]"]) (simp add: handle_pipeline_failure_def Let_def)
  next
    case None
    show ?thesis
    proof (cases "prob > 0.70")
      case False
      with None et assms show ?thesis
        by (intro exI [of _ "[NotificationSent run_id]"])
           (simp add: handle_pipeline_failure_def Let_def)
    next
      case True
      obtain result st' where heal:
        "invoke_heal env run_id ?a workflow_run (emit (FailureLogCreated run_id (get ?a ''error_type'')) st)
           = (result, st')"
        by (cases "invoke_heal env run_id ?a workflow_run
                     (emit (FailureLogCreated run_id (get ?a ''error_type'')) st)")
      then have st': "events st' =
          events st @ [FailureLogCreated run_id (get ?a ''error_type''), HealInvoked run_id]"
        using invoke_heal_state(1) [of env run_id ?a workflow_run
            "emit (FailureLogCreated run_id (get ?a ''error_type'')) st"]
        by simp
      show ?thesis
      proof (cases "create_healing_action env run_id (action_type result) (success result)")
        case (Some e)
        with True None et assms heal st' show ?thesis
          by (intro exI [of _ "[]"]) (simp add: handle_pipeline_failure_def Let_def)
      next
        case none: None
        with True None et assms heal st' show ?thesis
          by (intro exI [of _ "[HealingActionCreated run_id (action_type result) (success result),
                               if success result then RerunRequested run_id
                               else NotificationSent run_id]"])
             (simp add: handle_pipeline_failure_def Let_def)
      qed
    qed
  qed
qed

lemma heal_applies_strategy:
  assumes "get_default failure_analysis ''error_type'' (PStr ''unknown'') = PStr name"
    and "registry name = Some strategy"
  shows "action_type (fst (heal str_of registry repo run_id failure_analysis workflow_run)) = name"
    and "snd (heal str_of registry repo run_id failure_analysis workflow_run)
           = snd (strategy repo failure_analysis workflow_run)"
  using assms by (auto simp: heal_def Let_def split: prod.splits sum.splits exn.splits)

lemma registered_strategy:
  "name \<in> set strategy_names \<Longrightarrow> \<exists>strategy. strategies api others name = Some strategy"
  by (simp add: strategies_def)

lemma invoke_heal_repository:
  "repository (snd (invoke_heal env run_id analysis run st)) =
     snd (heal (str_fn env) (strategies (github_api env) (other_strategies env)) (repository st)
            run_id analysis run)"
  by (simp add: invoke_heal_def Let_def split: prod.splits)

lemma invoke_heal_result:
  "fst (invoke_heal env run_id analysis run st) =
     fst (heal (str_fn env) (strategies (github_api env) (other_strategies env)) (repository st)
            run_id analysis run)"
  by (simp add: invoke_heal_def Let_def split: prod.splits)

lemma process_run_repository:
  "repository (process_run env run_id run st) =
     (if get run ''conclusion'' = PStr ''failure''
         \<and> healing_probability env (analyze_failure (search_fn env) (logs_text_of env run)) > 0.7
      then snd (heal (str_fn env) (strategies (github_api env) (other_strategies env)) (repository st)
                  run_id (analyze_failure (search_fn env) (logs_text_of env run)) run)
      else repository st)"
  by (simp add: process_run_def Let_def invoke_heal_repository)

lemma handle_pipeline_failure_repository:
  assumes "predict_healing_success (ml_predictor env)
             (analyze_failure (search_fn env) (fetch_workflow_logs env run_id)) = Inr prob"
  shows "repository (handle_pipeline_failure env st run_id workflow_run) =
     (if create_failure_log env run_id
            (get (analyze_failure (search_fn env) (fetch_workflow_logs env run_id)) ''error_type'')
          = None \<and> prob > 0.70
      then snd (heal (str_fn env) (strategies (github_api env) (other_strategies env)) (repository st)
                  run_id (analyze_failure (search_fn env) (fetch_workflow_logs env run_id))
                  workflow_run)
      else repository st)"
proof -
  let ?a = "analyze_failure (search_fn env) (fetch_workflow_logs env run_id)"
  let ?st = "emit (FailureLogCreated run_id (get ?a ''error_type'')) st"
  have et: "get_default ?a ''error_type'' (PStr ''unknown'') = get ?a ''error_type''"
    by (simp add: get_default_def get_def analyze_failure_error_type)
  have healed: "repository (snd (invoke_heal env run_id ?a workflow_run ?st)) =
      snd (heal (str_fn env) (strategies (github_api env) (other_strategies env)) (repository st)
             run_id ?a workflow_run)"
    by (simp add: invoke_heal_repository)
  show ?thesis
    using assms et healed
    by (auto simp: handle_pipeline_failure_def Let_def split: option.splits prod.splits)
qed


lemma analyze_failure_stack_trace:
  "\<exists>trace. analyze_failure search logs ''stack_trace'' = Some (PStr trace)"
  by (simp add: analyze_failure_def Let_def record_match_def initial_analysis_def
        split: option.splits)

lemma healing_features_of_analysis:
  "\<exists>features. healing_features (analyze_failure search logs) = Inr features"
  using analyze_failure_stack_trace [of search logs]
  by (auto simp: healing_features_def get_default_def)

lemma demo_probability:
  "predict_healing_success (healing_scores prob) (analyze_failure search logs) = Inr prob"
  using healing_features_of_analysis [of search logs]
  by (auto simp: predict_healing_success_def score_healing_def healing_scores_def
        transform_def predict_proba_def)

lemma demo_env_fields:
  "ml_predictor (demo_env prob) = healing_scores prob"
  "create_failure_log (demo_env prob) = (\<lambda>run_id error_type. None)"
  "search_fn (demo_env prob) = re_search"
  by (simp_all add: demo_env_def)

lemma demo_healing_probability:
  "healing_probability (demo_env prob) (analyze_failure search logs) = prob"
  by (simp add: healing_probability_def demo_env_fields demo_probability)

lemma module_log_error_type:
  "get_default (analyze_failure re_search module_log) ''error_type'' (PStr ''unknown'')
     = PStr ''missing_dependency''"
  by code_simp

lemma failed_run_fields:
  "get (failed_run n) ''id'' = PInt n"
  "get (failed_run n) ''conclusion'' = PStr ''failure''"
  by (simp_all add: failed_run_def get_def)

lemma start_fields:
  "events start = []"
  "last_seen start = []"
  "last_seen_run start = PNone"
  by (simp_all add: start_def)

lemma start_repository:
  "repository start = Some two_requirements"
  by (simp add: start_def)

lemma demo_env_collaborators:
  "github_api (demo_env prob) = memory_github"
  "other_strategies (demo_env prob) = (\<lambda>name. untouched)"
  "str_fn (demo_env prob) = str_of_value"
  "fetch_workflow_logs (demo_env prob) = (\<lambda>run_id. module_log)"
  "create_healing_action (demo_env prob) = (\<lambda>run_id action ok. None)"
  by (simp_all add: demo_env_def)

lemma demo_logs_text:
  "logs_text_of (demo_env prob) (failed_run n) = module_log"
  by (simp add: logs_text_of_def demo_env_def failed_run_def get_def)

lemma module_log_analysis:
  "get (analyze_failure re_search module_log) ''error_type'' = PStr ''missing_dependency''"
  "get (analyze_failure re_search module_log) ''missing_package'' = PStr ''requests''"
  by code_simp+

lemma pandas_log_analysis:
  "get (analyze_failure re_search pandas_log) ''error_type'' = PStr ''missing_dependency''"
  "get_default (analyze_failure re_search pandas_log) ''error_type'' (PStr ''unknown'')
     = PStr ''missing_dependency''"
  "get (analyze_failure re_search pandas_log) ''missing_package'' = PStr ''pandas''"
  by code_simp+

lemma read_two_requirements_any:
  "read_requirements memory_github (Some two_requirements) branch
     = (''numpy\<newline>pandas\<newline>'', Some ''3f2a'')"
  "read_requirements read_only_github (Some two_requirements) branch
     = (''numpy\<newline>pandas\<newline>'', Some ''3f2a'')"
  by (simp_all add: read_requirements_def read_only_github_def memory_github_def
        two_requirements_def)

lemma text_facts:
  "sublist ''pandas'' ''numpy\<newline>pandas\<newline>''"
  "\<not> sublist ''requests'' ''numpy\<newline>pandas\<newline>''"
  "lstrip_newline (strip ''numpy\<newline>pandas\<newline>'' @ ''\<newline>requests\<newline>'')
     = ''numpy\<newline>pandas\<newline>requests\<newline>''"
  by code_simp+

lemma registry_missing_dependency:
  "strategies api others ''missing_dependency'' = Some (fix_missing_dependency api)"
  by (simp add: strategies_def)

lemma memory_update:
  "update_file memory_github two_requirements ''requirements.txt'' message content sha branch
     = Inr (two_requirements(''requirements.txt'' \<mapsto> content))"
  by (simp add: memory_github_def two_requirements_def)

lemma read_only_update:
  "update_file read_only_github files path message content sha branch
     = Inl (Exception ''403 Forbidden'')"
  by (simp add: read_only_github_def)

lemma fix_requests:
  assumes "get analysis ''missing_package'' = PStr ''requests''"
  shows "fix_missing_dependency memory_github (Some two_requirements) analysis run =
           (Inr \<lparr>success = True, details = ''Added requests to requirements.txt'',
                  changes_made = Some [''requirements.txt: +requests'']\<rparr>,
            Some (two_requirements(''requirements.txt'' \<mapsto> ''numpy\<newline>pandas\<newline>requests\<newline>'')))"
    and "fix_missing_dependency read_only_github (Some two_requirements) analysis run =
           (Inr \<lparr>success = False, details = ''Error updating requirements: 403 Forbidden'',
                  changes_made = None\<rparr>,
            Some two_requirements)"
  using assms
  by (simp_all add: fix_missing_dependency_string add_missing_dependency_def Let_def
        read_two_requirements_any text_facts memory_update read_only_update)

lemma fix_pandas:
  assumes "get analysis ''missing_package'' = PStr ''pandas''"
  shows "fix_missing_dependency memory_github (Some two_requirements) analysis run =
           (Inr \<lparr>success = False, details = ''pandas already in requirements.txt'',
                  changes_made = None\<rparr>,
            Some two_requirements)"
  using assms
  by (simp add: fix_missing_dependency_string add_missing_dependency_def Let_def
        read_two_requirements_any text_facts)

lemma heal_missing_dependency:
  assumes "get_default analysis ''error_type'' (PStr ''unknown'') = PStr ''missing_dependency''"
    and "fix_missing_dependency api repo analysis run = (Inr result, repo')"
  shows "heal str_of (strategies api others) repo run_id analysis run =
           (\<lparr>success = success result, details = details result,
             changes_made = Some (case changes_made result of None \<Rightarrow> [] | Some c \<Rightarrow> c),
             action_type = ''missing_dependency''\<rparr>, repo')"
  using assms by (simp add: heal_def registry_missing_dependency)

lemma heal_requests:
  "snd (heal str_of (strategies memory_github others) (Some two_requirements) run_id
          (analyze_failure re_search module_log) run)
   = Some (two_requirements(''requirements.txt'' \<mapsto> ''numpy\<newline>pandas\<newline>requests\<newline>''))"
  by (simp add: heal_missing_dependency [OF module_log_error_type
        fix_requests(1) [OF module_log_analysis(2)]])

lemma heal_requests_action:
  "action_type (fst (heal str_of (strategies memory_github others) (Some two_requirements) run_id
          (analyze_failure re_search module_log) run)) = ''missing_dependency''"
  by (simp add: heal_missing_dependency [OF module_log_error_type
        fix_requests(1) [OF module_log_analysis(2)]])



lemma handle_pipeline_failure_dispatched:
  assumes "predict_healing_success (ml_predictor env)
             (analyze_failure (search_fn env) (fetch_workflow_logs env run_id)) = Inr prob"
    and "prob > 0.70"
    and "create_failure_log env run_id
           (get (analyze_failure (search_fn env) (fetch_workflow_logs env run_id)) ''error_type'')
         = None"
    and "heal (str_fn env) (strategies (github_api env) (other_strategies env)) (repository st)
           run_id (analyze_failure (search_fn env) (fetch_workflow_logs env run_id)) workflow_run
         = (result, repo')"
    and "create_healing_action env run_id (action_type result) (success result) = None"
  shows "events (handle_pipeline_failure env st run_id workflow_run) =
           events st
           @ [FailureLogCreated run_id
                (get (analyze_failure (search_fn env) (fetch_workflow_logs env run_id))
                   ''error_type''),
              HealInvoked run_id,
              HealingActionCreated run_id (action_type result) (success result),
              if success result then RerunRequested run_id else NotificationSent run_id]"
proof -
  let ?a = "analyze_failure (search_fn env) (fetch_workflow_logs env run_id)"
  let ?st = "emit (FailureLogCreated run_id (get ?a ''error_type'')) st"
  have et: "get_default ?a ''error_type'' (PStr ''unknown'') = get ?a ''error_type''"
    by (simp add: get_default_def get_def analyze_failure_error_type)
  have "invoke_heal env run_id ?a workflow_run ?st
          = (result, (emit (HealInvoked run_id) ?st)\<lparr>repository := repo'\<rparr>)"
    using assms(4) by (simp add: invoke_heal_def Let_def)
  with assms(1,2,3,5) et show ?thesis
    by (simp add: handle_pipeline_failure_def Let_def)
qed

lemma pandas_env_fields:
  "ml_predictor pandas_env = healing_scores 0.9"
  "search_fn pandas_env = re_search"
  "str_fn pandas_env = str_of_value"
  "github_api pandas_env = memory_github"
  "other_strategies pandas_env = (\<lambda>name. untouched)"
  "fetch_workflow_logs pandas_env = (\<lambda>run_id. pandas_log)"
  "create_failure_log pandas_env = (\<lambda>run_id error_type. None)"
  "create_healing_action pandas_env = (\<lambda>run_id action ok. None)"
  by (simp_all add: pandas_env_def demo_env_def)

lemma read_only_env_fields:
  "ml_predictor read_only_env = healing_scores 0.9"
  "search_fn read_only_env = re_search"
  "str_fn read_only_env = str_of_value"
  "github_api read_only_env = read_only_github"
  "other_strategies read_only_env = (\<lambda>name. untouched)"
  "fetch_workflow_logs read_only_env = (\<lambda>run_id. module_log)"
  "create_failure_log read_only_env = (\<lambda>run_id error_type. None)"
  "create_healing_action read_only_env = (\<lambda>run_id action ok. None)"
  by (simp_all add: read_only_env_def demo_env_def)

lemma heal_pandas:
  "heal str_of (strategies memory_github others) (Some two_requirements) run_id
     (analyze_failure re_search pandas_log) run
   = (\<lparr>success = False, details = ''pandas already in requirements.txt'',
       changes_made = Some [], action_type = ''missing_dependency''\<rparr>, Some two_requirements)"
  by (simp add: heal_missing_dependency [OF pandas_log_analysis(2)
        fix_pandas [OF pandas_log_analysis(3)]])

lemma heal_read_only:
  "heal str_of (strategies read_only_github others) (Some two_requirements) run_id
     (analyze_failure re_search module_log) run
   = (\<lparr>success = False, details = ''Error updating requirements: 403 Forbidden'',
       changes_made = Some [], action_type = ''missing_dependency''\<rparr>, Some two_requirements)"
  by (simp add: heal_missing_dependency [OF module_log_error_type
        fix_requests(2) [OF module_log_analysis(2)]])

lemma handle_pandas_events:
  "events (handle_pipeline_failure pandas_env start (PStr ''42'') (failed_run 42)) =
     [FailureLogCreated (PStr ''42'') (PStr ''missing_dependency''),
      HealInvoked (PStr ''42''),
      HealingActionCreated (PStr ''42'') ''missing_dependency'' False,
      NotificationSent (PStr ''42'')]"
  using handle_pipeline_failure_dispatched [where env = pandas_env and st = start
      and run_id = "PStr ''42''" and workflow_run = "failed_run 42" and prob = "0.9"
      and result = "\<lparr>success = False, details = ''pandas already in requirements.txt'',
                     changes_made = Some [], action_type = ''missing_dependency''\<rparr>"
      and repo' = "Some two_requirements"]
  by (simp add: pandas_env_fields demo_probability heal_pandas start_fields start_repository
        pandas_log_analysis)

lemma handle_read_only_events:
  "events (handle_pipeline_failure read_only_env start (PStr ''42'') (failed_run 42)) =
     [FailureLogCreated (PStr ''42'') (PStr ''missing_dependency''),
      HealInvoked (PStr ''42''),
      HealingActionCreated (PStr ''42'') ''missing_dependency'' False,
      NotificationSent (PStr ''42'')]"
  using handle_pipeline_failure_dispatched [where env = read_only_env and st = start
      and run_id = "PStr ''42''" and workflow_run = "failed_run 42" and prob = "0.9"
      and result = "\<lparr>success = False, details = ''Error updating requirements: 403 Forbidden'',
                     changes_made = Some [], action_type = ''missing_dependency''\<rparr>"
      and repo' = "Some two_requirements"]
  by (simp add: read_only_env_fields demo_probability heal_read_only start_fields
        start_repository module_log_analysis)


subsection \<open>The recency set of \<^verbatim>\<open>run_safe_monitor\<close>\<close>

lemma remember_below_limit:
  "length seen < 200 \<Longrightarrow> remember pop seen run_id = seen @ [run_id]"
  by (simp add: remember_def Let_def)

lemma safe_run_cases:
  "safe_run env st it =
     (case it of
        NotADict \<Rightarrow> st
      | RunDict run \<Rightarrow>
          if get run ''id'' = PNone \<or> get run ''id'' \<in> set (last_seen st) then st
          else process_run env (get run ''id'') run
                 (st\<lparr>last_seen := remember (set_pop env) (last_seen st) (get run ''id'')\<rparr>))"
  by (simp add: safe_run_def Let_def split: item.splits)

text \<open>
  The number of times a run id has been observed, plus one while the id is not in the
  recency set, never grows while the set stays below its limit; the same holds for the
  calls of \<^verbatim>\<open>heal\<close>.
\<close>

lemma safe_run_step:
  assumes "length (last_seen st) < 200"
  shows "count_list (events (safe_run env st it)) (RunObserved rid)
           + (if rid \<in> set (last_seen (safe_run env st it)) then 0 else 1)
         \<le> count_list (events st) (RunObserved rid)
           + (if rid \<in> set (last_seen st) then 0 else 1)"
    and "count_list (events (safe_run env st it)) (HealInvoked rid)
           + (if rid \<in> set (last_seen (safe_run env st it)) then 0 else 1)
         \<le> count_list (events st) (HealInvoked rid)
           + (if rid \<in> set (last_seen st) then 0 else 1)"
    and "length (last_seen (safe_run env st it)) \<le> Suc (length (last_seen st))"
    and "filter is_db_row (events (safe_run env st it)) = filter is_db_row (events st)"
    and "count_list (events st) e \<le> count_list (events (safe_run env st it)) e"
  using assms
  by (auto simp: safe_run_cases process_run_events remember_below_limit split: item.splits)

lemma safe_run_skipped:
  "item_id it = PNone \<or> item_id it \<in> set (last_seen st) \<Longrightarrow> safe_run env st it = st"
  by (cases it) (auto simp: safe_run_cases)

lemma safe_run_new:
  assumes "item_id it \<noteq> PNone" and "item_id it \<notin> set (last_seen st)"
    and "length (last_seen st) < 200"
  shows "last_seen (safe_run env st it) = last_seen st @ [item_id it]"
  using assms by (cases it) (auto simp: safe_run_cases remember_below_limit)

text \<open>
  As long as the ids in the recency set and the ids delivered are together at most 200,
  the set never reaches its limit, however often an id is delivered.
\<close>

lemma safe_runs_fold:
  assumes "distinct (last_seen st)" and "finite S" and "set (last_seen st) \<subseteq> S"
    and "item_id ` set items - {PNone} \<subseteq> S" and "card S \<le> 200"
  shows "count_list (events (foldl (safe_run env) st items)) (RunObserved rid)
           + (if rid \<in> set (last_seen (foldl (safe_run env) st items)) then 0 else 1)
         \<le> count_list (events st) (RunObserved rid)
           + (if rid \<in> set (last_seen st) then 0 else 1)
       \<and> count_list (events (foldl (safe_run env) st items)) (HealInvoked rid)
           + (if rid \<in> set (last_seen (foldl (safe_run env) st items)) then 0 else 1)
         \<le> count_list (events st) (HealInvoked rid)
           + (if rid \<in> set (last_seen st) then 0 else 1)
       \<and> distinct (last_seen (foldl (safe_run env) st items))
       \<and> set (last_seen (foldl (safe_run env) st items)) \<subseteq> S
       \<and> filter is_db_row (events (foldl (safe_run env) st items)) = filter is_db_row (events st)
       \<and> count_list (events st) e \<le> count_list (events (foldl (safe_run env) st items)) e"
  using assms
proof (induction items arbitrary: st)
  case Nil
  then show ?case by simp
next
  case (Cons it items)
  let ?st = "safe_run env st it"
  from Cons.prems(4) have rest: "item_id ` set items - {PNone} \<subseteq> S" by auto
  show ?case
  proof (cases "item_id it = PNone \<or> item_id it \<in> set (last_seen st)")
    case True
    then have "?st = st" by (rule safe_run_skipped)
    with Cons.IH [OF Cons.prems(1) Cons.prems(2) Cons.prems(3) rest Cons.prems(5)]
    show ?thesis by simp
  next
    case False
    then have new: "item_id it \<noteq> PNone" "item_id it \<notin> set (last_seen st)" by simp_all
    from new(1) Cons.prems(4) have member: "item_id it \<in> S" by auto
    with new(2) Cons.prems(3) have "set (last_seen st) \<subset> S" by auto
    with Cons.prems(2) have "card (set (last_seen st)) < card S" by (rule psubset_card_mono)
    with Cons.prems(1) Cons.prems(5) have below: "length (last_seen st) < 200"
      by (simp add: distinct_card)
    note seen = safe_run_new [OF new below, of env]
    from seen Cons.prems(1) new(2) have distinct': "distinct (last_seen ?st)" by simp
    from seen Cons.prems(3) member have subset': "set (last_seen ?st) \<subseteq> S" by simp
    note observed = safe_run_step(1) [OF below, where env = env and it = it and rid = rid]
      and healed = safe_run_step(2) [OF below, where env = env and it = it and rid = rid]
      and rows = safe_run_step(4) [OF below, where env = env and it = it]
      and grows = safe_run_step(5) [OF below, where env = env and it = it and e = e]
    from Cons.IH [OF distinct' Cons.prems(2) subset' rest Cons.prems(5)] observed healed rows grows
    show ?thesis by simp
  qed
qed

text \<open>The list that stands for the set never holds an id twice, eviction or not.\<close>

lemma evict_distinct:
  "distinct seen \<Longrightarrow> distinct (evict pop seen)"
proof (induction pop seen rule: evict.induct)
  case (1 pop seen)
  show ?case
  proof (cases "length seen > 100")
    case True
    let ?i = "pop seen mod length seen"
    let ?rest = "take ?i seen @ drop (Suc ?i) seen"
    have "set (take ?i seen) \<inter> set (drop (Suc ?i) seen) = {}"
      using "1.prems" set_take_disj_set_drop_if_distinct [of seen ?i "Suc ?i"] by simp
    with "1.prems" have "distinct ?rest" by simp
    with "1.IH" [OF True refl] have "distinct (evict pop ?rest)" by simp
    moreover have "evict pop seen = evict pop ?rest"
      using True by (subst evict.simps) (simp add: Let_def)
    ultimately show ?thesis by simp
  next
    case False
    then have "evict pop seen = seen" by (subst evict.simps) simp
    with "1.prems" show ?thesis by simp
  qed
qed

lemma safe_run_distinct:
  "distinct (last_seen st) \<Longrightarrow> distinct (last_seen (safe_run env st it))"
  by (cases it) (auto simp: safe_run_cases remember_def Let_def evict_distinct)

lemma safe_cycle_fold:
  "safe_cycle env st raw = foldl (safe_run env) st (runs_of raw)"
  by (cases raw) (simp_all add: safe_cycle_def)

lemma safe_monitor_fold:
  "run_safe_monitor env st polls = foldl (safe_run env) st (concat (map runs_of polls))"
  by (induction polls arbitrary: st) (simp_all add: run_safe_monitor_def safe_cycle_fold)

text \<open>Every state that the loop reaches from a duplicate-free set has a duplicate-free set.\<close>

lemma safe_runs_distinct:
  "distinct (last_seen st) \<Longrightarrow> distinct (last_seen (foldl (safe_run env) st items))"
  by (induction items arbitrary: st) (simp_all add: safe_run_distinct)

lemma run_safe_monitor_distinct:
  "distinct (last_seen st) \<Longrightarrow> distinct (last_seen (run_safe_monitor env st polls))"
  unfolding safe_monitor_fold by (rule safe_runs_distinct)

text \<open>
  C2, as amended.  Within one eviction window of \<^verbatim>\<open>run_safe_monitor\<close>, that is as
  long as the ids in the recency set and the ids delivered are together at most 200 and
  nothing is evicted, a run id is processed at most once however many polls deliver it:
  it is observed at most once more and \<^verbatim>\<open>heal\<close> is called for it at most once more,
  and not at all when the id is already in the set.  The loop writes no row to the
  database: no FailureRecord, where the claim has exactly one, and no
  RemediationAttempt.
\<close>

theorem safe_monitor_processes_once:
  assumes "distinct (last_seen st)"
    and "card (set (last_seen st) \<union> delivered_ids polls) \<le> 200"
  shows "count_list (events (run_safe_monitor env st polls)) (RunObserved rid)
           \<le> count_list (events st) (RunObserved rid) + 1
       \<and> count_list (events (run_safe_monitor env st polls)) (HealInvoked rid)
           \<le> count_list (events st) (HealInvoked rid) + 1
       \<and> (rid \<in> set (last_seen st) \<longrightarrow>
            count_list (events (run_safe_monitor env st polls)) (RunObserved rid)
              = count_list (events st) (RunObserved rid)
            \<and> count_list (events (run_safe_monitor env st polls)) (HealInvoked rid)
              = count_list (events st) (HealInvoked rid))
       \<and> filter is_db_row (events (run_safe_monitor env st polls)) = filter is_db_row (events st)"
proof -
  let ?S = "set (last_seen st) \<union> delivered_ids polls"
  have finite: "finite ?S" by (simp add: delivered_ids_def)
  have seen: "set (last_seen st) \<subseteq> ?S" by simp
  have ids: "item_id ` set (concat (map runs_of polls)) - {PNone} \<subseteq> ?S"
    by (simp add: delivered_ids_def)
  note fold_observed =
    safe_runs_fold [OF assms(1) finite seen ids assms(2),
      where env = env and rid = rid and e = "RunObserved rid"]
  note fold_healed =
    safe_runs_fold [OF assms(1) finite seen ids assms(2),
      where env = env and rid = rid and e = "HealInvoked rid"]
  from fold_observed fold_healed show ?thesis
    unfolding safe_monitor_fold
    by (auto split: if_splits)
qed

lemma demo_confidence:
  "confidence_metric
     (predict_failure (ml_predictor (demo_env prob)) (clock_fn (demo_env prob))
        (payload_of (failed_run n))) = 0.9"
  by (simp add: demo_env_def healing_scores_def monday_noon_def failed_run_def payload_of_def
        predict_failure_def score_failure_def extract_features_def transform_def
        predict_proba_def factors_def number_def confidence_metric_def get_default_def get_def
        py_or_def)

lemma process_failed_run:
  "0.7 < prob \<Longrightarrow>
   events (process_run (demo_env prob) (PInt n) (failed_run n) st) =
     events st @ [RunObserved (PInt n), ConfidenceSet 0.9, HealInvoked (PInt n)]"
  by (simp add: process_run_events demo_confidence demo_healing_probability failed_run_fields)

lemma poll_7_twice:
  "events (run_safe_monitor (demo_env 0.9) start [poll_7, poll_7]) =
     [RunObserved (PInt 7), ConfidenceSet 0.9, HealInvoked (PInt 7)]"
  by (simp add: run_safe_monitor_def safe_cycle_def poll_7_def safe_run_cases
        failed_run_fields start_fields remember_below_limit process_failed_run)

lemma delivered_ids_poll_7:
  "delivered_ids (poll_7 # replicate n poll_7) = {PInt 7}"
  by (auto simp: delivered_ids_def poll_7_def failed_run_fields)

lemma delivered_ids_poll_7_twice:
  "delivered_ids [poll_7, poll_7] = {PInt 7}"
  by (auto simp: delivered_ids_def poll_7_def failed_run_fields)

theorem safe_monitor_processes_once_witness:
  "distinct (last_seen start)
   \<and> card (set (last_seen start) \<union> delivered_ids (poll_7 # replicate 200 poll_7)) \<le> 200
   \<and> count_list (events (run_safe_monitor (demo_env 0.9) start (poll_7 # replicate 200 poll_7)))
        (RunObserved (PInt 7)) \<le> 1
   \<and> count_list (events (run_safe_monitor (demo_env 0.9) start (poll_7 # replicate 200 poll_7)))
        (HealInvoked (PInt 7)) \<le> 1
   \<and> count_list (events (run_safe_monitor (demo_env 0.9) start [poll_7, poll_7])) (RunObserved (PInt 7)) = 1
   \<and> count_list (events (run_safe_monitor (demo_env 0.9) start [poll_7, poll_7])) (HealInvoked (PInt 7)) = 1
   \<and> filter is_db_row (events (run_safe_monitor (demo_env 0.9) start [poll_7, poll_7])) = []"
proof -
  have fresh: "distinct (last_seen start)"
    by (simp add: start_fields)
  have many: "card (set (last_seen start) \<union> delivered_ids (poll_7 # replicate 200 poll_7)) \<le> 200"
    by (simp add: start_fields delivered_ids_poll_7)
  have two: "card (set (last_seen start) \<union> delivered_ids [poll_7, poll_7]) \<le> 200"
    by (simp add: start_fields delivered_ids_poll_7_twice)
  from safe_monitor_processes_once [OF fresh many, of "demo_env 0.9" "PInt 7"]
    safe_monitor_processes_once [OF fresh two, of "demo_env 0.9" "PInt 7"] fresh many
  show ?thesis
    by (simp add: poll_7_twice start_fields)
qed

text \<open>
  C2 as stated fails: fed the failed run 7 in two consecutive polls, with a healing
  probability of 0.9, \<^verbatim>\<open>run_safe_monitor\<close> processes the run once and writes no
  FailureRecord, where the claim has exactly one.
\<close>

theorem dedup_counterexample:
  "length (filter is_failure_record
             (events (run_safe_monitor (demo_env 0.9) start [poll_7, poll_7]))) \<noteq> 1"
  by (simp add: poll_7_twice)

text \<open>
  The loop \<^verbatim>\<open>monitor_pipelines\<close> of main.py remembers one run id only: when two
  consecutive polls deliver the same two runs, both are processed again.
\<close>

lemma monitor_pipelines_reprocesses:
  "events (monitor_pipelines (demo_env 0.9) start [poll_2_1, poll_2_1]) =
     [RunObserved (PInt 2), ConfidenceSet 0.9, HealInvoked (PInt 2),
      RunObserved (PInt 1), ConfidenceSet 0.9, HealInvoked (PInt 1),
      RunObserved (PInt 2), ConfidenceSet 0.9, HealInvoked (PInt 2),
      RunObserved (PInt 1), ConfidenceSet 0.9, HealInvoked (PInt 1)]"
  by (simp add: monitor_pipelines_def pipelines_cycle_def poll_2_1_def pipelines_run_def Let_def
        failed_run_fields start_fields process_failed_run)

lemma evict_length:
  "length (evict pop seen) = min (length seen) 100"
proof (induction pop seen rule: evict.induct)
  case (1 pop seen)
  show ?case
  proof (cases "length seen > 100")
    case True
    let ?i = "pop seen mod length seen"
    let ?rest = "take ?i seen @ drop (Suc ?i) seen"
    from True have "0 < length seen" by linarith
    then have "?i < length seen" by (rule mod_less_divisor)
    then have shorter: "length ?rest = length seen - 1" by simp
    from "1.IH" [OF True refl] have "length (evict pop ?rest) = min (length ?rest) 100" .
    moreover have "evict pop seen = evict pop ?rest"
      using True by (subst evict.simps) (simp add: Let_def)
    ultimately show ?thesis using True shorter by simp
  next
    case False
    then have "evict pop seen = seen" by (subst evict.simps) simp
    with False show ?thesis by simp
  qed
qed

text \<open>The size limit: whatever \<^verbatim>\<open>set.pop()\<close> removes, the recency set never holds more
  than 200 ids, and an eviction leaves 100.\<close>

lemma remember_bounded:
  "length seen \<le> 200 \<Longrightarrow> length (remember pop seen run_id) \<le> 200"
  "length seen = 200 \<Longrightarrow> length (remember pop seen run_id) = 100"
  by (simp_all add: remember_def Let_def evict_length)

lemma safe_run_last_seen:
  "last_seen (safe_run env st (RunDict run)) =
     (if get run ''id'' = PNone \<or> get run ''id'' \<in> set (last_seen st) then last_seen st
      else remember (set_pop env) (last_seen st) (get run ''id''))"
  by (simp add: safe_run_cases)

lemma last_seen_failed_runs:
  "set_pop env = pop \<Longrightarrow>
   last_seen (foldl (safe_run env) st (map (\<lambda>n. RunDict (failed_run n)) ns)) =
     foldl (\<lambda>seen n. if PInt n \<in> set seen then seen else remember pop seen (PInt n))
       (last_seen st) ns"
  by (induction ns arbitrary: st) (simp_all add: safe_run_last_seen failed_run_fields)

lemma newest_first_eviction:
  "foldl (\<lambda>seen n. if PInt n \<in> set seen then seen else remember smallest_first seen (PInt n))
     [] newest_first_ids = oldest_hundred"
  by code_simp

lemma oldest_hundred_members:
  "PInt 1 \<notin> set oldest_hundred"
  "PInt 201 \<in> set oldest_hundred"
  by code_simp+

text \<open>
  C9.  The recency set is bounded (\<open>remember_bounded\<close>), but its eviction is not oldest
  first.  The failed runs 201, 200, ..., 1 arrive in this order; with the choice that
  CPython's \<^verbatim>\<open>set.pop()\<close> makes on these ids, adding the 201st id evicts the 101 ids
  added last, the id 1 just added among them, and keeps the 100 ids added first, the
  oldest id 201 among them.
\<close>

theorem eviction_drops_newest:
  "last_seen (run_safe_monitor (demo_env 0.9) start [poll_201]) = map PInt (rev [102..201])
   \<and> PInt 1 \<notin> set (last_seen (run_safe_monitor (demo_env 0.9) start [poll_201]))
   \<and> PInt 201 \<in> set (last_seen (run_safe_monitor (demo_env 0.9) start [poll_201]))"
proof -
  have pop: "set_pop (demo_env 0.9) = smallest_first"
    by (simp add: demo_env_def)
  have "last_seen (run_safe_monitor (demo_env 0.9) start [poll_201]) = oldest_hundred"
    by (simp add: run_safe_monitor_def safe_cycle_def poll_201_def
          last_seen_failed_runs [OF pop] start_fields newest_first_eviction)
  then show ?thesis
    using oldest_hundred_members by (simp add: oldest_hundred_def)
qed


end
